theory Spec2Isabelle
  imports Main "HOL-Library.Multiset"
begin

section \<open>Data model (types/game.types.ts)\<close>

text \<open>
  The card game's types. A field whose source name is an Isabelle keyword or a constant
  of HOL carries the owning type as a suffix (\<open>id_card\<close> for \<open>Card.id\<close>, \<open>value_card\<close>
  for \<open>Card.value\<close>, ...). An optional field \<open>f?: T\<close> is a \<open>T option\<close>.
  \<open>NumberValue\<close> is \<open>0 | 1 | ... | 9\<close> in the source; here it is \<open>Num n\<close>.
\<close>

datatype CardColor = Red | Yellow | Green | Blue | Wild_color

datatype CardValue = Num nat | Skip | Reverse | Draw2 | Wild | Wild_draw4

record Card =
  id_card :: string
  color :: CardColor
  value_card :: CardValue

datatype PlayerType = Human | Ai

datatype AIDifficulty = Easy | Medium | Hard

record Player =
  id_player :: string
  name :: string
  hand :: "Card list"
  hasCalledUno :: bool
  isConnected :: bool
  type_player :: PlayerType
  avatar :: "string option"

datatype GamePhase =
  Waiting | Playing | Color_selection | Slap_race | Custom_rule_creation
  | Card_request | Offering_card | Game_over

datatype PendingActionType =
  Draw_cards_pending | Slap_pending | Select_color_pending | Create_rule_pending
  | Card_request_pending | Offer_decision_pending

record PendingAction =
  type_pending :: PendingActionType
  targetPlayer :: "string option"
  requesterId :: "string option"
  amount :: "nat option"
  deadline :: "int option"
  offeredCardId :: "string option"
  offererId :: "string option"

datatype CustomRuleType = Behavioral | Speech | Penalty | Action_rule

record CustomRule =
  id_rule :: string
  text_rule :: string
  type_rule :: CustomRuleType
  createdBy :: string
  createdAt :: int

record CustomRuleDraft =
  text_draft :: string
  type_draft :: CustomRuleType
  createdBy_draft :: string

datatype GameActionType =
  Play_card | Draw_card | Call_uno | Catch_uno | Slap | Create_custom_rule
  | Request_card | Decline_request | Offer_card | Accept_offer | Decline_offer
  | Report_speaking | Select_color | Pass_turn | Jump_in

record GameAction =
  type_action :: GameActionType
  playerId :: string
  cardId :: "string option"
  targetPlayerId :: "string option"
  wildColor :: "CardColor option"
  customRule :: "CustomRuleDraft option"
  timestamp :: "int option"

record GameState =
  id_state :: string
  phase :: GamePhase
  players :: "Player list"
  currentPlayerIndex :: int
  direction :: int
  drawPile :: "Card list"
  discardPile :: "Card list"
  pendingAction :: "PendingAction option"
  customRules :: "CustomRule list"
  silenceMode :: bool
  stackedDrawAmount :: nat
  turnStartTime :: int
  winner :: "string option"
  lastAction :: "GameAction option"

record EnabledRules =
  silence :: bool
  customRuleEnabled :: bool
  stackDraw :: bool
  stackSkip :: bool
  slap :: bool
  jumpIn :: bool
  unoCall :: bool
  offerCard :: bool

record GameConfig =
  playerCount :: nat
  playerNames :: "string list"
  enabledRules :: EnabledRules
  aiDifficulty :: "AIDifficulty option"

record ValidationResult =
  valid :: bool
  reason :: "string option"

section \<open>JavaScript arrays and values\<close>

text \<open>
  \<open>xs[i]\<close> is \<open>undefined\<close> outside \<open>0 .. length - 1\<close>; \<open>findIndex\<close> answers \<open>-1\<close> when
  nothing matches; \<open>slice\<close> counts a negative bound from the end of the array.
  A string is truthy when it is present and not empty.
\<close>

definition nth_js :: "'a list \<Rightarrow> int \<Rightarrow> 'a option" where
  "nth_js xs i = (if 0 \<le> i \<and> i < int (length xs) then Some (xs ! nat i) else None)"

fun findIndex_from :: "('a \<Rightarrow> bool) \<Rightarrow> 'a list \<Rightarrow> int \<Rightarrow> int" where
  "findIndex_from P [] k = -1"
| "findIndex_from P (x # xs) k = (if P x then k else findIndex_from P xs (k + 1))"

definition findIndex :: "('a \<Rightarrow> bool) \<Rightarrow> 'a list \<Rightarrow> int" where
  "findIndex P xs = findIndex_from P xs 0"

definition slice_bound :: "int \<Rightarrow> nat \<Rightarrow> nat" where
  "slice_bound k len = (if k < 0 then nat (max (int len + k) 0) else min (nat k) len)"

definition slice :: "'a list \<Rightarrow> int \<Rightarrow> int \<Rightarrow> 'a list" where
  "slice xs b e = take (slice_bound e (length xs) - slice_bound b (length xs))
                    (drop (slice_bound b (length xs)) xs)"

definition slice_from :: "'a list \<Rightarrow> int \<Rightarrow> 'a list" where
  "slice_from xs b = drop (slice_bound b (length xs)) xs"

text \<open>
  \<open>xs[i] = v\<close> is only applied to an index that \<open>findIndex\<close> returned: in range it
  replaces the element; at \<open>-1\<close> it sets a property named \<open>-1\<close> and leaves the
  elements and the length of the array as they are.
\<close>

definition set_index :: "'a list \<Rightarrow> int \<Rightarrow> 'a \<Rightarrow> 'a list" where
  "set_index xs i v = (if 0 \<le> i \<and> i < int (length xs) then xs[nat i := v] else xs)"

definition truthy :: "string option \<Rightarrow> bool" where
  "truthy s = (case s of None \<Rightarrow> False | Some t \<Rightarrow> t \<noteq> [])"

text \<open>
  What a call can do besides returning a state of the types above: throw a \<open>TypeError\<close>
  (a property read on \<open>undefined\<close>), or return normally with the value \<open>undefined\<close>
  stored where a \<open>Card\<close> belongs. The types above cannot hold such a state, so
  \<open>UndefinedCard s\<close> carries the state \<open>s\<close> as it is at that moment without the
  \<open>undefined\<close> entry, and the model follows the source no further.
\<close>

datatype 's failure = TypeError | UndefinedCard 's

section \<open>Deck (engine/CardDeck.ts)\<close>

definition COLORS :: "CardColor list" where
  "COLORS = [Red, Yellow, Green, Blue]"

definition NUMBERS :: "nat list" where
  "NUMBERS = [0, 1, 2, 3, 4, 5, 6, 7, 8, 9]"

definition ACTIONS :: "CardValue list" where
  "ACTIONS = [Skip, Reverse, Draw2]"

definition createCard :: "string \<Rightarrow> CardColor \<Rightarrow> CardValue \<Rightarrow> Card" where
  "createCard uuid c v = \<lparr>id_card = uuid, color = c, value_card = v\<rparr>"

text \<open>The faces of \<open>createDeck\<close>, in the order of its pushes.\<close>

definition colorFaces :: "CardColor \<Rightarrow> (CardColor \<times> CardValue) list" where
  "colorFaces c =
     (c, Num 0)
     # concat (map (\<lambda>n. [(c, Num n), (c, Num n)]) (tl NUMBERS))
     @ concat (map (\<lambda>a. [(c, a), (c, a)]) ACTIONS)"

definition deckFaces :: "(CardColor \<times> CardValue) list" where
  "deckFaces =
     concat (map colorFaces COLORS)
     @ concat (replicate 4 [(Wild_color, Wild), (Wild_color, Wild_draw4)])"

text \<open>\<open>uuidv4\<close> is a parameter: \<open>uuid k\<close> is the identifier the \<open>k\<close>-th call returns.\<close>

definition createDeck :: "(nat \<Rightarrow> string) \<Rightarrow> Card list" where
  "createDeck uuid =
     map (\<lambda>(k, f). createCard (uuid k) (fst f) (snd f)) (enumerate 0 deckFaces)"

text \<open>
  \<open>shuffleDeck\<close> is Fisher-Yates: for \<open>i\<close> from \<open>length - 1\<close> down to \<open>1\<close> it swaps
  positions \<open>i\<close> and \<open>j = floor (Math.random () * (i + 1))\<close>. The random numbers are
  a parameter: the list \<open>rs\<close> of the values drawn, each reduced into \<open>0 .. i\<close>
  (\<open>0\<close> once the list is used up).
\<close>

definition swap :: "nat \<Rightarrow> nat \<Rightarrow> 'a list \<Rightarrow> 'a list" where
  "swap i j xs = xs[i := xs ! j, j := xs ! i]"

fun shuffle_from :: "nat \<Rightarrow> nat list \<Rightarrow> 'a list \<Rightarrow> 'a list" where
  "shuffle_from 0 rs xs = xs"
| "shuffle_from (Suc k) rs xs =
     shuffle_from k (tl rs)
       (swap (Suc k) ((case rs of [] \<Rightarrow> 0 | r # _ \<Rightarrow> r) mod (Suc (Suc k))) xs)"

definition shuffleDeck :: "nat list \<Rightarrow> 'a list \<Rightarrow> 'a list" where
  "shuffleDeck rs deck = shuffle_from (length deck - 1) rs deck"

definition drawCards :: "Card list \<Rightarrow> nat \<Rightarrow> Card list \<times> Card list" where
  "drawCards deck n = (slice deck 0 (int n), slice_from deck (int n))"

definition isPlayable :: "Card \<Rightarrow> Card \<Rightarrow> CardColor \<Rightarrow> bool" where
  "isPlayable c topCard currentColor =
     (if color c = Wild_color then True
      else if color c = currentColor then True
      else if value_card c = value_card topCard then True
      else False)"

definition isNumber :: "CardValue \<Rightarrow> bool" where
  "isNumber v = (case v of Num _ \<Rightarrow> True | _ \<Rightarrow> False)"

definition isExactMatch :: "Card \<Rightarrow> Card \<Rightarrow> bool" where
  "isExactMatch c topCard =
     (color c = color topCard \<and> value_card c = value_card topCard
      \<and> isNumber (value_card c))"

definition getCurrentColor :: "Card \<Rightarrow> CardColor option \<Rightarrow> CardColor" where
  "getCurrentColor topCard selectedColor =
     (if color topCard = Wild_color \<and> selectedColor \<noteq> None then the selectedColor
      else if color topCard = Wild_color then Red else color topCard)"

definition isDrawCard :: "Card \<Rightarrow> bool" where
  "isDrawCard c = (value_card c = Draw2 \<or> value_card c = Wild_draw4)"

definition isSkipCard :: "Card \<Rightarrow> bool" where
  "isSkipCard c = (value_card c = Skip)"

definition isReverseCard :: "Card \<Rightarrow> bool" where
  "isReverseCard c = (value_card c = Reverse)"

definition getDrawAmount :: "Card \<Rightarrow> nat" where
  "getDrawAmount c =
     (if value_card c = Draw2 then 2 else if value_card c = Wild_draw4 then 4 else 0)"

section \<open>The rules engine (engine/GameEngine.ts)\<close>

text \<open>
  The engine object: its state, its configuration and the private colour chosen for the
  wild card on top of the discard pile. What the engine reads from outside is a
  parameter \<open>Env\<close>: the clock (\<open>Date.now ()\<close>, one reading per call of the engine), the
  random numbers of a shuffle and the identifier \<open>uuidv4 ()\<close> returns.
  Notifications to listeners do not change the state (the bus catches what a listener
  throws); the model keeps the two that \<open>dispatch\<close> itself emits.
\<close>

record GameEngine =
  state :: GameState
  config :: GameConfig
  selectedWildColor :: "CardColor option"

record Env =
  now :: int
  random :: "nat list"
  uuidv4 :: string

datatype GameEvent = Action_rejected GameAction "string option" | State_changed GameState

definition INITIAL_HAND_SIZE :: nat where
  "INITIAL_HAND_SIZE = 7"

fun deal :: "Player list \<Rightarrow> Card list \<Rightarrow> Player list \<times> Card list" where
  "deal [] deck = ([], deck)"
| "deal (p # ps) deck =
     (let (drawn, remaining) = drawCards deck INITIAL_HAND_SIZE;
          (ps', deck') = deal ps remaining
      in (p\<lparr>hand := drawn\<rparr> # ps', deck'))"

text \<open>
  \<open>createInitialState\<close>: \<open>uuid k\<close> is the \<open>k\<close>-th identifier generated (the 108 cards
  first, then the players, then the state).
\<close>

definition createInitialState ::
  "(nat \<Rightarrow> string) \<Rightarrow> nat list \<Rightarrow> int \<Rightarrow> GameConfig \<Rightarrow> GameState failure + GameState" where
  "createInitialState uuid rs t cfg =
     (let deck = shuffleDeck rs (createDeck uuid);
          players0 = map (\<lambda>(index, nm).
              \<lparr>id_player = uuid (length deck + index), name = nm, hand = [],
               hasCalledUno = False, isConnected = True,
               type_player = (if index = 0 then Human
                              else if aiDifficulty cfg \<noteq> None then Ai else Human),
               avatar = None\<rparr>) (enumerate 0 (playerNames cfg));
          (ps, deck1) = deal players0 deck;
          found = findIndex (\<lambda>c. color c \<noteq> Wild_color \<and> isNumber (value_card c)) deck1;
          firstCardIndex = (if found = -1 then 0 else found);
          deck2 = slice deck1 0 firstCardIndex @ slice_from deck1 (firstCardIndex + 1);
          st = \<lparr>id_state = uuid (length deck + length ps), phase = Playing, players = ps,
                currentPlayerIndex = 0, direction = 1, drawPile = deck2, discardPile = [],
                pendingAction = None, customRules = [], silenceMode = False,
                stackedDrawAmount = 0, turnStartTime = t, winner = None,
                lastAction = None\<rparr>
      in case nth_js deck1 firstCardIndex of
           None \<Rightarrow> Inl (UndefinedCard st)
         | Some firstCard \<Rightarrow> Inr (st\<lparr>discardPile := [firstCard]\<rparr>))"

definition getTopCard :: "GameState \<Rightarrow> Card option" where
  "getTopCard s = nth_js (discardPile s) (int (length (discardPile s)) - 1)"

definition getCurrentColor_engine :: "GameEngine \<Rightarrow> GameState failure + CardColor" where
  "getCurrentColor_engine e =
     (case getTopCard (state e) of
        None \<Rightarrow> Inl TypeError
      | Some topCard \<Rightarrow> Inr (getCurrentColor topCard (selectedWildColor e)))"

definition getValidMoves :: "GameEngine \<Rightarrow> string \<Rightarrow> GameState failure + Card list" where
  "getValidMoves e pid =
     (case find (\<lambda>p. id_player p = pid) (players (state e)) of
        None \<Rightarrow> Inr []
      | Some player \<Rightarrow>
          (case getTopCard (state e) of
             None \<Rightarrow> Inl TypeError
           | Some topCard \<Rightarrow>
               (let currentColor = getCurrentColor topCard (selectedWildColor e)
                in if stackedDrawAmount (state e) > 0 \<and> stackDraw (enabledRules (config e))
                   then Inr (filter (\<lambda>c.
                          if value_card topCard = Draw2 then value_card c = Draw2
                          else if value_card topCard = Wild_draw4 then value_card c = Wild_draw4
                          else False) (hand player))
                   else Inr (filter (\<lambda>c. isPlayable c topCard currentColor) (hand player)))))"

definition canJumpIn :: "GameEngine \<Rightarrow> string \<Rightarrow> string \<Rightarrow> GameState failure + bool" where
  "canJumpIn e pid cid =
     (if \<not> jumpIn (enabledRules (config e)) then Inr False
      else case find (\<lambda>p. id_player p = pid) (players (state e)) of
        None \<Rightarrow> Inr False
      | Some player \<Rightarrow>
          (case find (\<lambda>c. id_card c = cid) (hand player) of
             None \<Rightarrow> Inr False
           | Some c \<Rightarrow>
               (case getTopCard (state e) of
                  None \<Rightarrow> Inl TypeError
                | Some topCard \<Rightarrow> Inr (isExactMatch c topCard))))"

definition accept :: ValidationResult where
  "accept = \<lparr>valid = True, reason = None\<rparr>"

definition reject :: "string \<Rightarrow> ValidationResult" where
  "reject r = \<lparr>valid = False, reason = Some r\<rparr>"

definition validate_play_card ::
  "GameEngine \<Rightarrow> GameAction \<Rightarrow> Player \<Rightarrow> GameState failure + ValidationResult" where
  "validate_play_card e a player =
     (if \<not> truthy (cardId a) then Inr (reject ''No card specified'')
      else case find (\<lambda>c. Some (id_card c) = cardId a) (hand player) of
        None \<Rightarrow> Inr (reject ''Card not in hand'')
      | Some c \<Rightarrow>
          (case nth_js (players (state e)) (currentPlayerIndex (state e)) of
             None \<Rightarrow> Inl TypeError
           | Some current \<Rightarrow>
               if id_player current \<noteq> playerId a then
                 (case canJumpIn e (playerId a) (the (cardId a)) of
                    Inl f \<Rightarrow> Inl f
                  | Inr ok \<Rightarrow> Inr (if ok then accept else reject ''Not your turn''))
               else
                 (case getValidMoves e (playerId a) of
                    Inl f \<Rightarrow> Inl f
                  | Inr validMoves \<Rightarrow>
                      if find (\<lambda>m. Some (id_card m) = cardId a) validMoves = None
                      then Inr (reject ''Card cannot be played'')
                      else if color c = Wild_color \<and> wildColor a = None
                      then Inr (reject ''Must select a color for wild card'')
                      else Inr accept)))"

definition validateAction :: "GameEngine \<Rightarrow> GameAction \<Rightarrow> GameState failure + ValidationResult" where
  "validateAction e a =
     (case find (\<lambda>p. id_player p = playerId a) (players (state e)) of
        None \<Rightarrow> Inr (reject ''Player not found'')
      | Some player \<Rightarrow>
          (case type_action a of
             Play_card \<Rightarrow> validate_play_card e a player
           | Draw_card \<Rightarrow>
               (case nth_js (players (state e)) (currentPlayerIndex (state e)) of
                  None \<Rightarrow> Inl TypeError
                | Some current \<Rightarrow>
                    Inr (if id_player current \<noteq> playerId a then reject ''Not your turn''
                         else accept))
           | Call_uno \<Rightarrow>
               Inr (if length (hand player) \<noteq> 2 then reject ''Can only call UNO with 2 cards''
                    else accept)
           | Catch_uno \<Rightarrow>
               (case find (\<lambda>p. Some (id_player p) = targetPlayerId a) (players (state e)) of
                  None \<Rightarrow> Inr (reject ''Target player not found'')
                | Some target \<Rightarrow>
                    Inr (if length (hand target) \<noteq> 1 \<or> hasCalledUno target
                         then reject ''Cannot catch this player'' else accept))
           | Slap \<Rightarrow>
               Inr (if phase (state e) \<noteq> Slap_race then reject ''No slap race active''
                    else accept)
           | Select_color \<Rightarrow>
               Inr (if phase (state e) \<noteq> Color_selection then reject ''Not selecting color''
                    else accept)
           | _ \<Rightarrow> Inr accept))"

definition advanceTurn :: "Env \<Rightarrow> GameState \<Rightarrow> GameState" where
  "advanceTurn env s =
     (let numPlayers = int (length (players s));
          nextIndex0 = currentPlayerIndex s + direction s;
          nextIndex1 = (if nextIndex0 < 0 then numPlayers - 1 else nextIndex0);
          nextIndex = (if nextIndex1 \<ge> numPlayers then 0 else nextIndex1)
      in s\<lparr>currentPlayerIndex := nextIndex, turnStartTime := now env\<rparr>)"

text \<open>
  \<open>forceDrawCards\<close>: the reshuffle happens on local copies before \<open>player.hand\<close> is read,
  so an unknown player is a \<open>TypeError\<close> whatever the piles hold; \<open>pop\<close> on an empty
  discard pile gives \<open>undefined\<close>, which becomes the one-card discard pile.
\<close>

definition forceDrawCards :: "Env \<Rightarrow> GameState \<Rightarrow> string \<Rightarrow> nat \<Rightarrow> GameState failure + GameState" where
  "forceDrawCards env s pid n =
     (let playerIndex = findIndex (\<lambda>p. id_player p = pid) (players s);
          reshuffle = (length (drawPile s) < n);
          pile = (if reshuffle
                  then shuffleDeck (random env) (drawPile s @ butlast (discardPile s))
                  else drawPile s);
          discard = (if reshuffle then [last (discardPile s)] else discardPile s);
          (drawn, remaining) = drawCards pile n
      in case nth_js (players s) playerIndex of
           None \<Rightarrow> Inl TypeError
         | Some player \<Rightarrow>
             (let newPlayers = set_index (players s) playerIndex
                                 (player\<lparr>hand := hand player @ drawn\<rparr>)
              in if reshuffle \<and> discardPile s = []
                 then Inl (UndefinedCard
                             (s\<lparr>players := newPlayers, drawPile := remaining, discardPile := []\<rparr>))
                 else Inr (s\<lparr>players := newPlayers, drawPile := remaining,
                             discardPile := discard\<rparr>)))"

definition canStack :: "Card \<Rightarrow> Player \<Rightarrow> bool" where
  "canStack played nextPlayer =
     list_ex (\<lambda>c. if value_card played = Draw2 then value_card c = Draw2
                   else if value_card played = Wild_draw4 then value_card c = Wild_draw4
                   else False) (hand nextPlayer)"

definition applyCardEffects ::
  "Env \<Rightarrow> GameConfig \<Rightarrow> GameState \<Rightarrow> Card \<Rightarrow> int \<Rightarrow> GameState failure + GameState" where
  "applyCardEffects env cfg s played playerIndex =
     (if isDrawCard played then
        (let drawAmount = getDrawAmount played in
         if stackDraw (enabledRules cfg) then
           (let s1 = advanceTurn env (s\<lparr>stackedDrawAmount := stackedDrawAmount s + drawAmount\<rparr>)
            in case nth_js (players s1) (currentPlayerIndex s1) of
                 None \<Rightarrow> Inl TypeError
               | Some nextPlayer \<Rightarrow>
                   if \<not> canStack played nextPlayer then
                     (case forceDrawCards env s1 (id_player nextPlayer) (stackedDrawAmount s1) of
                        Inl f \<Rightarrow> Inl f
                      | Inr s2 \<Rightarrow> Inr (advanceTurn env (s2\<lparr>stackedDrawAmount := 0\<rparr>)))
                   else Inr s1)
         else
           (let s1 = advanceTurn env s
            in case nth_js (players s1) (currentPlayerIndex s1) of
                 None \<Rightarrow> Inl TypeError
               | Some nextPlayer \<Rightarrow>
                   (case forceDrawCards env s1 (id_player nextPlayer) drawAmount of
                      Inl f \<Rightarrow> Inl f
                    | Inr s2 \<Rightarrow> Inr (advanceTurn env s2))))
      else if isSkipCard played then Inr (advanceTurn env (advanceTurn env s))
      else if isReverseCard played then
        (let s1 = s\<lparr>direction := direction s * (-1)\<rparr>
         in if length (players s1) = 2 then Inr (advanceTurn env (advanceTurn env s1))
            else Inr (advanceTurn env s1))
      else
        (let s1 = (if silence (enabledRules cfg) \<and> value_card played = Num 7
                   then s\<lparr>silenceMode := \<not> silenceMode s\<rparr> else s)
         in if customRuleEnabled (enabledRules cfg) \<and> value_card played = Num 0 then
              (case nth_js (players s) playerIndex of
                 None \<Rightarrow> Inl TypeError
               | Some p \<Rightarrow>
                   Inr (s1\<lparr>phase := Custom_rule_creation,
                           pendingAction := Some
                             \<lparr>type_pending = Create_rule_pending,
                              targetPlayer = Some (id_player p), requesterId = None,
                              amount = None, deadline = None, offeredCardId = None,
                              offererId = None\<rparr>\<rparr>))
            else if slap (enabledRules cfg) \<and> value_card played = Num 5 then
              Inr (s1\<lparr>phase := Slap_race,
                      pendingAction := Some
                        \<lparr>type_pending = Slap_pending, targetPlayer = None,
                         requesterId = None, amount = None,
                         deadline = Some (now env + 3000), offeredCardId = None,
                         offererId = None\<rparr>\<rparr>)
            else Inr (advanceTurn env s1)))"

text \<open>
  The handlers. \<open>handlePlayCard\<close> and \<open>handleSelectColor\<close> also assign the engine's
  \<open>selectedWildColor\<close>, so they return it with the state. \<open>handlePlayCard\<close> reads
  \<open>card.color\<close> before that assignment, and nothing after the assignment can throw, so a
  call that throws leaves the engine as it was.
\<close>

definition handlePlayCard ::
  "Env \<Rightarrow> GameEngine \<Rightarrow> GameState \<Rightarrow> GameAction \<Rightarrow> GameState failure + (GameState \<times> CardColor option)" where
  "handlePlayCard env e s a =
     (let playerIndex = findIndex (\<lambda>p. id_player p = playerId a) (players s)
      in case nth_js (players s) playerIndex of
           None \<Rightarrow> Inl TypeError
         | Some player \<Rightarrow>
             (let cardIndex = findIndex (\<lambda>c. Some (id_card c) = cardId a) (hand player);
                  newHand = slice (hand player) 0 cardIndex
                            @ slice_from (hand player) (cardIndex + 1);
                  newPlayers = set_index (players s) playerIndex
                                 (player\<lparr>hand := newHand, hasCalledUno := False\<rparr>)
              in case nth_js (hand player) cardIndex of
                   None \<Rightarrow> Inl TypeError
                 | Some played \<Rightarrow>
                     (let sel = (if color played = Wild_color \<and> wildColor a \<noteq> None
                                 then wildColor a else None);
                          newState = s\<lparr>players := newPlayers,
                                       discardPile := discardPile s @ [played]\<rparr>
                      in if newHand = []
                         then Inr (newState\<lparr>phase := Game_over, winner := Some (playerId a)\<rparr>,
                                   sel)
                         else (case applyCardEffects env (config e) newState played playerIndex of
                                 Inl f \<Rightarrow> Inl f
                               | Inr s' \<Rightarrow> Inr (s', sel)))))"

definition handleDrawCard :: "Env \<Rightarrow> GameState \<Rightarrow> GameAction \<Rightarrow> GameState failure + GameState" where
  "handleDrawCard env s a =
     (let drawCount = (if stackedDrawAmount s > 0 then stackedDrawAmount s else 1)
      in case forceDrawCards env s (playerId a) drawCount of
           Inl f \<Rightarrow> Inl f
         | Inr s1 \<Rightarrow> Inr (advanceTurn env (s1\<lparr>stackedDrawAmount := 0\<rparr>)))"

definition handleCallUno :: "GameState \<Rightarrow> GameAction \<Rightarrow> GameState failure + GameState" where
  "handleCallUno s a =
     (let playerIndex = findIndex (\<lambda>p. id_player p = playerId a) (players s)
      in case nth_js (players s) playerIndex of
           None \<Rightarrow> Inr s
         | Some p \<Rightarrow> Inr (s\<lparr>players := set_index (players s) playerIndex
                                          (p\<lparr>hasCalledUno := True\<rparr>)\<rparr>))"

definition handleCatchUno :: "Env \<Rightarrow> GameState \<Rightarrow> GameAction \<Rightarrow> GameState failure + GameState" where
  "handleCatchUno env s a =
     (if \<not> truthy (targetPlayerId a) then Inr s
      else forceDrawCards env s (the (targetPlayerId a)) 2)"

definition handleSlap :: "GameState \<Rightarrow> GameAction \<Rightarrow> GameState failure + GameState" where
  "handleSlap s a = Inr s"

definition handleSelectColor ::
  "Env \<Rightarrow> GameEngine \<Rightarrow> GameState \<Rightarrow> GameAction \<Rightarrow> GameState failure + (GameState \<times> CardColor option)" where
  "handleSelectColor env e s a =
     Inr (advanceTurn env (s\<lparr>phase := Playing, pendingAction := None\<rparr>),
          (if wildColor a \<noteq> None then wildColor a else selectedWildColor e))"

definition handleCreateCustomRule :: "Env \<Rightarrow> GameState \<Rightarrow> GameAction \<Rightarrow> GameState failure + GameState" where
  "handleCreateCustomRule env s a =
     (case customRule a of
        None \<Rightarrow> Inr s
      | Some draft \<Rightarrow>
          (let newRule = \<lparr>id_rule = uuidv4 env, text_rule = text_draft draft,
                          type_rule = type_draft draft, createdBy = playerId a,
                          createdAt = now env\<rparr>
           in Inr (advanceTurn env
                     (s\<lparr>phase := Playing, pendingAction := None,
                        customRules := customRules s @ [newRule]\<rparr>))))"

definition handleReportSpeaking ::
  "Env \<Rightarrow> GameEngine \<Rightarrow> GameState \<Rightarrow> GameAction \<Rightarrow> GameState failure + GameState" where
  "handleReportSpeaking env e s a =
     (if \<not> silence (enabledRules (config e)) \<or> \<not> silenceMode s then Inr s
      else if \<not> truthy (targetPlayerId a) then Inr s
      else forceDrawCards env s (the (targetPlayerId a)) 1)"

definition handleRequestCard :: "GameEngine \<Rightarrow> GameState \<Rightarrow> GameAction \<Rightarrow> GameState failure + GameState" where
  "handleRequestCard e s a =
     (if \<not> offerCard (enabledRules (config e)) then Inr s
      else if \<not> truthy (targetPlayerId a) then Inr s
      else if Some (playerId a) = targetPlayerId a then Inr s
      else case find (\<lambda>p. Some (id_player p) = targetPlayerId a) (players s) of
        None \<Rightarrow> Inr s
      | Some target \<Rightarrow>
          if length (hand target) = 0 then Inr s
          else Inr (s\<lparr>phase := Card_request,
                       pendingAction := Some
                         \<lparr>type_pending = Card_request_pending,
                          targetPlayer = targetPlayerId a, requesterId = Some (playerId a),
                          amount = None, deadline = None, offeredCardId = None,
                          offererId = None\<rparr>\<rparr>))"

definition handleDeclineRequest :: "GameState \<Rightarrow> GameAction \<Rightarrow> GameState failure + GameState" where
  "handleDeclineRequest s a =
     (case pendingAction s of
        None \<Rightarrow> Inr s
      | Some pa \<Rightarrow>
          if phase s \<noteq> Card_request then Inr s
          else if targetPlayer pa \<noteq> Some (playerId a) then Inr s
          else Inr (s\<lparr>phase := Playing, pendingAction := None\<rparr>))"

definition handleOfferCard :: "GameEngine \<Rightarrow> GameState \<Rightarrow> GameAction \<Rightarrow> GameState failure + GameState" where
  "handleOfferCard e s a =
     (if \<not> offerCard (enabledRules (config e)) then Inr s
      else if \<not> truthy (cardId a) then Inr s
      else case pendingAction s of
        None \<Rightarrow> Inr s
      | Some pa \<Rightarrow>
          if phase s \<noteq> Card_request then Inr s
          else if targetPlayer pa \<noteq> Some (playerId a) then Inr s
          else if \<not> truthy (requesterId pa) then Inr s
          else Inr (s\<lparr>phase := Offering_card,
                       pendingAction := Some
                         \<lparr>type_pending = Offer_decision_pending,
                          targetPlayer = requesterId pa, requesterId = requesterId pa,
                          amount = None, deadline = None, offeredCardId = cardId a,
                          offererId = Some (playerId a)\<rparr>\<rparr>))"

text \<open>
  \<open>handleAcceptOffer\<close> does not look at the result of \<open>findIndex\<close> for the offered card.
  At \<open>-1\<close> the two slices are the hand without its last card and the whole hand, and
  \<open>offerer.hand[-1]\<close>, which is \<open>undefined\<close>, is appended to the target's hand.
\<close>

definition handleAcceptOffer :: "GameState \<Rightarrow> GameAction \<Rightarrow> GameState failure + GameState" where
  "handleAcceptOffer s a =
     (case pendingAction s of
        None \<Rightarrow> Inr s
      | Some pa \<Rightarrow>
          if type_pending pa \<noteq> Offer_decision_pending then Inr s
          else if \<not> truthy (offererId pa) \<or> \<not> truthy (offeredCardId pa)
                  \<or> \<not> truthy (targetPlayer pa) then Inr s
          else
            (let offererIndex = findIndex (\<lambda>p. Some (id_player p) = offererId pa) (players s);
                 targetIndex = findIndex (\<lambda>p. Some (id_player p) = targetPlayer pa) (players s)
             in case nth_js (players s) offererIndex of
                  None \<Rightarrow> Inl TypeError
                | Some offerer \<Rightarrow>
                    (case nth_js (players s) targetIndex of
                       None \<Rightarrow> Inl TypeError
                     | Some target \<Rightarrow>
                         (let cardIndex = findIndex (\<lambda>c. Some (id_card c) = offeredCardId pa)
                                            (hand offerer);
                              newOffererHand = slice (hand offerer) 0 cardIndex
                                               @ slice_from (hand offerer) (cardIndex + 1);
                              newPlayers = set_index (players s) offererIndex
                                             (offerer\<lparr>hand := newOffererHand\<rparr>)
                          in case nth_js (hand offerer) cardIndex of
                               None \<Rightarrow>
                                 Inl (UndefinedCard
                                   (s\<lparr>phase := Playing, pendingAction := None,
                                      players := set_index newPlayers targetIndex target\<rparr>))
                             | Some offered \<Rightarrow>
                                 Inr (s\<lparr>phase := Playing, pendingAction := None,
                                        players := set_index newPlayers targetIndex
                                          (target\<lparr>hand := hand target @ [offered]\<rparr>)\<rparr>)))))"

definition handleDeclineOffer :: "GameState \<Rightarrow> GameAction \<Rightarrow> GameState failure + GameState" where
  "handleDeclineOffer s a = Inr (s\<lparr>phase := Playing, pendingAction := None\<rparr>)"

definition handlePassTurn :: "Env \<Rightarrow> GameState \<Rightarrow> GameAction \<Rightarrow> GameState failure + GameState" where
  "handlePassTurn env s a = Inr (advanceTurn env s)"

definition handleJumpIn ::
  "Env \<Rightarrow> GameEngine \<Rightarrow> GameState \<Rightarrow> GameAction \<Rightarrow> GameState failure + (GameState \<times> CardColor option)" where
  "handleJumpIn env e s a =
     (let playerIndex = findIndex (\<lambda>p. id_player p = playerId a) (players s)
      in handlePlayCard env e (s\<lparr>currentPlayerIndex := playerIndex\<rparr>) a)"

definition keep_color ::
  "GameEngine \<Rightarrow> GameState failure + GameState \<Rightarrow> GameState failure + (GameState \<times> CardColor option)" where
  "keep_color e r = (case r of Inl f \<Rightarrow> Inl f | Inr s \<Rightarrow> Inr (s, selectedWildColor e))"

definition applyAction ::
  "Env \<Rightarrow> GameEngine \<Rightarrow> GameAction \<Rightarrow> GameState failure + (GameState \<times> CardColor option)" where
  "applyAction env e a =
     (let s = state e in
      case type_action a of
        Play_card \<Rightarrow> handlePlayCard env e s a
      | Draw_card \<Rightarrow> keep_color e (handleDrawCard env s a)
      | Call_uno \<Rightarrow> keep_color e (handleCallUno s a)
      | Catch_uno \<Rightarrow> keep_color e (handleCatchUno env s a)
      | Slap \<Rightarrow> keep_color e (handleSlap s a)
      | Select_color \<Rightarrow> handleSelectColor env e s a
      | Create_custom_rule \<Rightarrow> keep_color e (handleCreateCustomRule env s a)
      | Report_speaking \<Rightarrow> keep_color e (handleReportSpeaking env e s a)
      | Request_card \<Rightarrow> keep_color e (handleRequestCard e s a)
      | Decline_request \<Rightarrow> keep_color e (handleDeclineRequest s a)
      | Offer_card \<Rightarrow> keep_color e (handleOfferCard e s a)
      | Accept_offer \<Rightarrow> keep_color e (handleAcceptOffer s a)
      | Decline_offer \<Rightarrow> keep_color e (handleDeclineOffer s a)
      | Pass_turn \<Rightarrow> keep_color e (handlePassTurn env s a)
      | Jump_in \<Rightarrow> handleJumpIn env e s a)"

text \<open>
  \<open>dispatch\<close> returns \<open>this.state\<close>: the state of the engine it leaves behind. The result
  is that engine with the events \<open>dispatch\<close> emitted.
\<close>

definition dispatch ::
  "Env \<Rightarrow> GameEngine \<Rightarrow> GameAction \<Rightarrow> GameState failure + (GameEngine \<times> GameEvent list)" where
  "dispatch env e a =
     (case validateAction e a of
        Inl f \<Rightarrow> Inl f
      | Inr validation \<Rightarrow>
          if \<not> valid validation then Inr (e, [Action_rejected a (reason validation)])
          else (case applyAction env e a of
                  Inl f \<Rightarrow> Inl f
                | Inr (newState, sel) \<Rightarrow>
                    (let s' = newState\<lparr>lastAction := Some a\<rparr>
                     in Inr (e\<lparr>state := s', selectedWildColor := sel\<rparr>, [State_changed s']))))"

text \<open>
  \<open>resolveSlapRace\<close>: the attempts are pairs of a player and a timestamp; \<open>sort\<close> is
  stable.
\<close>

definition resolveSlapRace ::
  "Env \<Rightarrow> GameEngine \<Rightarrow> (string \<times> int) list \<Rightarrow> GameState failure + (GameEngine \<times> GameEvent list)" where
  "resolveSlapRace env e slapResults =
     (if phase (state e) \<noteq> Slap_race then Inr (e, [])
      else
        (let sorted = sort_key snd slapResults;
             nonSlappers = filter (\<lambda>p. id_player p \<notin> set (map fst sorted)) (players (state e))
         in case (if nonSlappers \<noteq> [] then Some (id_player (hd nonSlappers))
                  else map_option fst (nth_js sorted (int (length sorted) - 1))) of
              None \<Rightarrow> Inl TypeError
            | Some loserId \<Rightarrow>
                (case forceDrawCards env (state e) loserId 1 of
                   Inl f \<Rightarrow> Inl f
                 | Inr s1 \<Rightarrow>
                     (let s2 = advanceTurn env (s1\<lparr>phase := Playing, pendingAction := None\<rparr>)
                      in Inr (e\<lparr>state := s2\<rparr>, [State_changed s2])))))"

section \<open>The scripted opponent (ai/AIPlayer.ts)\<close>

text \<open>
  The opponent's random choices are parameters: \<open>movePick\<close> for the move of the easy
  tier, \<open>colorPick\<close> for the colour of a wild card, \<open>rulePick\<close> for the house rule and
  \<open>variance\<close> for the reaction time in a slap race. The \<open>delay\<close> of a decision is a
  scheduling hint computed from \<open>Math.random ()\<close> alone; the model returns the action.
\<close>

record AIPlayer =
  id_ai :: string
  difficulty :: AIDifficulty

record AIEnv =
  movePick :: nat
  colorPick :: nat
  rulePick :: nat
  variance :: int
  clock :: int

definition priority :: "Card \<Rightarrow> int" where
  "priority c =
     (case value_card c of
        Wild_draw4 \<Rightarrow> 100
      | Draw2 \<Rightarrow> 80
      | Skip \<Rightarrow> 60
      | Reverse \<Rightarrow> 50
      | Wild \<Rightarrow> 10
      | Num n \<Rightarrow> int n + 20)"

definition basicStrategy :: "Card list \<Rightarrow> Card list \<Rightarrow> Card" where
  "basicStrategy validMoves hnd = hd (sort_key (\<lambda>c. - priority c) validMoves)"

definition minOpponentCards :: "AIPlayer \<Rightarrow> GameState \<Rightarrow> nat option" where
  "minOpponentCards ai s =
     (case map (\<lambda>p. length (hand p)) (filter (\<lambda>p. id_player p \<noteq> id_ai ai) (players s)) of
        [] \<Rightarrow> None
      | n # ns \<Rightarrow> Some (fold min ns n))"

definition scoreCard :: "AIPlayer \<Rightarrow> Card list \<Rightarrow> Card list \<Rightarrow> GameState \<Rightarrow> Card \<Rightarrow> int" where
  "scoreCard ai validMoves hnd s c =
     int (length (filter (\<lambda>h. color h = color c) hnd)) * 5
     + (if color c = Wild_color \<and> filter (\<lambda>m. color m \<noteq> Wild_color) validMoves \<noteq> []
        then - 50 else 0)
     + (case minOpponentCards ai s of
          None \<Rightarrow> 0
        | Some m \<Rightarrow>
            if m \<le> 3 then
              (if value_card c = Skip \<or> value_card c = Reverse then 30 else 0)
              + (if value_card c = Draw2 then 40 else 0)
              + (if value_card c = Wild_draw4 then 50 else 0)
            else 0)
     + (if value_card c = Num 5 then - 10 else 0)
     + (if value_card c = Num 7 then 5 else 0)
     + (case value_card c of Num n \<Rightarrow> int n | _ \<Rightarrow> 0)"

definition optimalStrategy :: "AIPlayer \<Rightarrow> Card list \<Rightarrow> Card list \<Rightarrow> GameState \<Rightarrow> Card" where
  "optimalStrategy ai validMoves hnd s =
     hd (sort_key (\<lambda>c. - scoreCard ai validMoves hnd s c) validMoves)"

definition pickBestCard ::
  "AIEnv \<Rightarrow> AIPlayer \<Rightarrow> Card list \<Rightarrow> Card list \<Rightarrow> GameState \<Rightarrow> Card" where
  "pickBestCard r ai validMoves hnd s =
     (case difficulty ai of
        Easy \<Rightarrow> validMoves ! (movePick r mod length validMoves)
      | Medium \<Rightarrow> basicStrategy validMoves hnd
      | Hard \<Rightarrow> optimalStrategy ai validMoves hnd s)"

definition pickWildColor :: "AIEnv \<Rightarrow> CardColor" where
  "pickWildColor r = [Red, Blue, Green, Yellow] ! (colorPick r mod 4)"

definition playCardDecision :: "AIEnv \<Rightarrow> AIPlayer \<Rightarrow> Card \<Rightarrow> GameAction" where
  "playCardDecision r ai c =
     \<lparr>type_action = Play_card, playerId = id_ai ai, cardId = Some (id_card c),
      targetPlayerId = None,
      wildColor = (if color c = Wild_color then Some (pickWildColor r) else None),
      customRule = None, timestamp = None\<rparr>"

definition drawCardDecision :: "AIPlayer \<Rightarrow> GameAction" where
  "drawCardDecision ai =
     \<lparr>type_action = Draw_card, playerId = id_ai ai, cardId = None, targetPlayerId = None,
      wildColor = None, customRule = None, timestamp = None\<rparr>"

text \<open>
  The moves the opponent takes for legal: \<open>getCurrentColor\<close> is called with the top card
  alone, without the colour chosen for a wild card.
\<close>

definition validMoves_ai :: "Card \<Rightarrow> Player \<Rightarrow> Card list" where
  "validMoves_ai topCard player =
     filter (\<lambda>c. isPlayable c topCard (getCurrentColor topCard None)) (hand player)"

definition isCounter :: "Card \<Rightarrow> bool" where
  "isCounter c = (value_card c = Draw2 \<or> value_card c = Wild_draw4)"

definition decidePlay ::
  "AIEnv \<Rightarrow> AIPlayer \<Rightarrow> GameState \<Rightarrow> Player \<Rightarrow> GameState failure + GameAction" where
  "decidePlay r ai s player =
     (case nth_js (discardPile s) (int (length (discardPile s)) - 1) of
        None \<Rightarrow> Inl TypeError
      | Some topCard \<Rightarrow>
          (let validMoves = validMoves_ai topCard player
           in if stackedDrawAmount s > 0 then
                (case find isCounter validMoves of
                   None \<Rightarrow> Inr (drawCardDecision ai)
                 | Some counterCard \<Rightarrow> Inr (playCardDecision r ai counterCard))
              else if length validMoves = 0 then Inr (drawCardDecision ai)
              else Inr (playCardDecision r ai (pickBestCard r ai validMoves (hand player) s))))"

definition decideSlap :: "AIEnv \<Rightarrow> AIPlayer \<Rightarrow> GameAction" where
  "decideSlap r ai =
     \<lparr>type_action = Slap, playerId = id_ai ai, cardId = None, targetPlayerId = None,
      wildColor = None, customRule = None,
      timestamp = Some (clock r
                        + (case difficulty ai of Easy \<Rightarrow> 1500 | Medium \<Rightarrow> 800 | Hard \<Rightarrow> 200)
                        + variance r)\<rparr>"

definition houseRules :: "(string \<times> CustomRuleType) list" where
  "houseRules =
     [(''Must say thank you when drawing'', Speech),
      (''No pointing at people'', Behavioral),
      (''Knock before playing a card'', Action_rule),
      (''Draw 1 if you touch your face'', Penalty),
      (''Must speak in an accent'', Behavioral)]"

definition decideCustomRule :: "AIEnv \<Rightarrow> AIPlayer \<Rightarrow> GameAction" where
  "decideCustomRule r ai =
     (let rule = houseRules ! (rulePick r mod length houseRules)
      in \<lparr>type_action = Create_custom_rule, playerId = id_ai ai, cardId = None,
          targetPlayerId = None, wildColor = None,
          customRule = Some \<lparr>text_draft = fst rule, type_draft = snd rule,
                             createdBy_draft = id_ai ai\<rparr>,
          timestamp = None\<rparr>)"

definition makeDecision ::
  "AIEnv \<Rightarrow> AIPlayer \<Rightarrow> GameState \<Rightarrow> GameState failure + GameAction option" where
  "makeDecision r ai s =
     (case find (\<lambda>p. id_player p = id_ai ai) (players s) of
        None \<Rightarrow> Inr None
      | Some player \<Rightarrow>
          (case nth_js (players s) (currentPlayerIndex s) of
             None \<Rightarrow> Inl TypeError
           | Some current \<Rightarrow>
               if id_player current \<noteq> id_ai ai \<and> phase s = Playing then Inr None
               else
                 (case phase s of
                    Playing \<Rightarrow> map_sum (\<lambda>f. f) Some (decidePlay r ai s player)
                  | Slap_race \<Rightarrow> Inr (Some (decideSlap r ai))
                  | Custom_rule_creation \<Rightarrow> Inr (Some (decideCustomRule r ai))
                  | _ \<Rightarrow> Inr None)))"

section \<open>The room host (server/src/index.ts)\<close>

text \<open>
  The server keeps its own types and its own copy of the rules. Its fields carry the
  suffix \<open>_sv\<close>. \<open>handleAction\<close> changes the room's state in place; the model passes the
  state through and returns it. \<open>TypeError_sv\<close> carries the state as the throw leaves
  it. \<open>NaN_index s\<close>: the player index of \<open>s\<close> is about to become \<open>NaN\<close>, the remainder
  by zero players.
\<close>

record ServerPlayer =
  id_sv :: string
  name_sv :: string
  hand_sv :: "Card list"
  hasCalledUno_sv :: bool
  isConnected_sv :: bool
  socketId :: string

record ServerGameState =
  id_state_sv :: string
  phase_sv :: GamePhase
  players_sv :: "ServerPlayer list"
  currentPlayerIndex_sv :: int
  direction_sv :: int
  drawPile_sv :: "Card list"
  discardPile_sv :: "Card list"
  pendingAction_sv :: "PendingAction option"
  customRules_sv :: "CustomRule list"
  silenceMode_sv :: bool
  stackedDrawAmount_sv :: nat
  turnStartTime_sv :: int
  winner_sv :: "string option"
  selectedWildColor_sv :: "CardColor option"

datatype server_failure =
  TypeError_sv ServerGameState | UndefinedCard_sv ServerGameState | NaN_index ServerGameState

text \<open>The remainder \<open>%\<close> of JavaScript takes the sign of the dividend.\<close>

definition js_rem :: "int \<Rightarrow> int \<Rightarrow> int option" where
  "js_rem a b = (if b = 0 then None else Some (sgn a * (\<bar>a\<bar> mod \<bar>b\<bar>)))"

definition getTopCard_sv :: "ServerGameState \<Rightarrow> Card option" where
  "getTopCard_sv s = nth_js (discardPile_sv s) (int (length (discardPile_sv s)) - 1)"

text \<open>\<open>canPlayCard\<close>: \<open>None\<close> is the \<open>TypeError\<close> of reading the top of an empty pile.\<close>

definition canPlayCard :: "ServerGameState \<Rightarrow> Card \<Rightarrow> bool option" where
  "canPlayCard s c =
     (case getTopCard_sv s of
        None \<Rightarrow>
          (if selectedWildColor_sv s = None then None
           else if color c = Wild_color then Some True
           else if Some (color c) = selectedWildColor_sv s then Some True
           else None)
      | Some topCard \<Rightarrow>
          (let effectiveColor = (case selectedWildColor_sv s of
                                   Some chosen \<Rightarrow> chosen | None \<Rightarrow> color topCard)
           in if color c = Wild_color then Some True
              else if color c = effectiveColor then Some True
              else if value_card c = value_card topCard then Some True
              else Some False))"

fun nextPlayer_loop :: "int \<Rightarrow> int \<Rightarrow> int \<Rightarrow> nat \<Rightarrow> int option" where
  "nextPlayer_loop dir len nxt 0 = Some nxt"
| "nextPlayer_loop dir len nxt (Suc k) =
     (case js_rem (nxt + dir + len) len of
        None \<Rightarrow> None
      | Some r \<Rightarrow> nextPlayer_loop dir len r k)"

definition nextPlayer :: "ServerGameState \<Rightarrow> nat \<Rightarrow> int option" where
  "nextPlayer s skip =
     nextPlayer_loop (direction_sv s) (int (length (players_sv s)))
       (currentPlayerIndex_sv s) (Suc skip)"

text \<open>
  \<open>drawCards\<close> of the server takes cards from the end of the draw pile, one at a time,
  and reshuffles when the pile is empty. A shuffle of \<open>m\<close> cards uses up \<open>m - 1\<close> random
  numbers. The flag tells whether \<open>undefined\<close> became the discard pile.
\<close>

fun drawCards_loop ::
  "nat \<Rightarrow> nat list \<Rightarrow> Card list \<Rightarrow> Card list \<Rightarrow> bool \<Rightarrow> Card list
   \<Rightarrow> Card list \<times> Card list \<times> Card list \<times> bool" where
  "drawCards_loop 0 rs pile discard bad cards = (cards, pile, discard, bad)"
| "drawCards_loop (Suc k) rs pile discard bad cards =
     (let reshuffle = (pile = []);
          pile1 = (if reshuffle then shuffleDeck rs (butlast discard) else pile);
          discard1 = (if reshuffle then (if discard = [] then [] else [last discard])
                      else discard);
          bad1 = (if reshuffle then discard = [] else bad);
          rs1 = (if reshuffle then drop (length (butlast discard) - 1) rs else rs)
      in if pile1 \<noteq> []
         then drawCards_loop k rs1 (butlast pile1) discard1 bad1 (cards @ [last pile1])
         else drawCards_loop k rs1 pile1 discard1 bad1 cards)"

definition drawCards_sv ::
  "nat list \<Rightarrow> ServerGameState \<Rightarrow> nat \<Rightarrow> Card list \<times> ServerGameState \<times> bool" where
  "drawCards_sv rs s n =
     (let (cards, pile, discard, bad) =
            drawCards_loop n rs (drawPile_sv s) (discardPile_sv s) False []
      in (cards, s\<lparr>drawPile_sv := pile, discardPile_sv := discard\<rparr>, bad))"

definition give_cards :: "ServerGameState \<Rightarrow> int \<Rightarrow> Card list \<Rightarrow> ServerGameState option" where
  "give_cards s i cards =
     (case nth_js (players_sv s) i of
        None \<Rightarrow> None
      | Some p \<Rightarrow>
          Some (s\<lparr>players_sv := set_index (players_sv s) i
                                  (p\<lparr>hand_sv := hand_sv p @ cards\<rparr>)\<rparr>))"

definition advance_sv :: "ServerGameState \<Rightarrow> nat \<Rightarrow> server_failure + ServerGameState" where
  "advance_sv s skip =
     (case nextPlayer s skip of
        None \<Rightarrow> Inl (NaN_index s)
      | Some i \<Rightarrow> Inr (s\<lparr>currentPlayerIndex_sv := i\<rparr>))"

definition draw_effect ::
  "Env \<Rightarrow> EnabledRules \<Rightarrow> ServerGameState \<Rightarrow> nat \<Rightarrow> server_failure + ServerGameState" where
  "draw_effect env cfg s n =
     (if stackDraw cfg then advance_sv (s\<lparr>stackedDrawAmount_sv := stackedDrawAmount_sv s + n\<rparr>) 0
      else
        (let (cards, s1, bad) = drawCards_sv (random env) s n
         in case nextPlayer s 0 of
              None \<Rightarrow> Inl (TypeError_sv s1)
            | Some nextIdx \<Rightarrow>
                (case give_cards s1 nextIdx cards of
                   None \<Rightarrow> Inl (TypeError_sv s1)
                 | Some s2 \<Rightarrow>
                     (case advance_sv s2 1 of
                        Inl f \<Rightarrow> Inl f
                      | Inr s3 \<Rightarrow>
                          (case advance_sv s3 0 of
                             Inl f \<Rightarrow> Inl f
                           | Inr s4 \<Rightarrow> if bad then Inl (UndefinedCard_sv s4) else Inr s4)))))"

definition applyCardEffects_sv ::
  "Env \<Rightarrow> EnabledRules \<Rightarrow> ServerGameState \<Rightarrow> Card \<Rightarrow> int \<Rightarrow> server_failure + ServerGameState" where
  "applyCardEffects_sv env cfg s played playerIndex =
     (case
        (case value_card played of
           Skip \<Rightarrow> advance_sv s 1
         | Reverse \<Rightarrow>
             if length (players_sv s) = 2 then advance_sv s 1
             else advance_sv (s\<lparr>direction_sv := direction_sv s * (-1)\<rparr>) 0
         | Draw2 \<Rightarrow> draw_effect env cfg s 2
         | Wild_draw4 \<Rightarrow> draw_effect env cfg s 4
         | Wild \<Rightarrow> advance_sv s 0
         | Num n \<Rightarrow>
             if n = 7 then
               advance_sv (if silence cfg then s\<lparr>silenceMode_sv := \<not> silenceMode_sv s\<rparr> else s) 0
             else if n = 0 then
               (if customRuleEnabled cfg then Inr (s\<lparr>phase_sv := Custom_rule_creation\<rparr>)
                else advance_sv s 0)
             else if n = 5 then
               (if slap cfg then
                  Inr (s\<lparr>phase_sv := Slap_race,
                         pendingAction_sv := Some
                           \<lparr>type_pending = Slap_pending, targetPlayer = None,
                            requesterId = None, amount = None,
                            deadline = Some (now env + 3000), offeredCardId = None,
                            offererId = None\<rparr>\<rparr>)
                else advance_sv s 0)
             else advance_sv s 0)
      of Inl f \<Rightarrow> Inl f
       | Inr s' \<Rightarrow> Inr (s'\<lparr>turnStartTime_sv := now env\<rparr>))"

definition finish_play ::
  "Env \<Rightarrow> EnabledRules \<Rightarrow> ServerGameState \<Rightarrow> GameAction \<Rightarrow> Card \<Rightarrow> int \<Rightarrow> Card list
   \<Rightarrow> server_failure + ServerGameState" where
  "finish_play env cfg s a played playerIndex newHand =
     (if length newHand = 0
      then Inr (s\<lparr>phase_sv := Game_over, winner_sv := Some (playerId a)\<rparr>)
      else applyCardEffects_sv env cfg s played playerIndex)"

definition play_card_sv ::
  "Env \<Rightarrow> EnabledRules \<Rightarrow> ServerGameState \<Rightarrow> GameAction \<Rightarrow> int \<Rightarrow> ServerPlayer
   \<Rightarrow> server_failure + ServerGameState" where
  "play_card_sv env cfg s a playerIndex player =
     (let cardIndex = findIndex (\<lambda>c. Some (id_card c) = cardId a) (hand_sv player)
      in case nth_js (hand_sv player) cardIndex of
           None \<Rightarrow> Inr s
         | Some played \<Rightarrow>
             (let newHand = take (nat cardIndex) (hand_sv player)
                            @ drop (nat cardIndex + 1) (hand_sv player);
                  s1 = s\<lparr>players_sv := set_index (players_sv s) playerIndex
                                          (player\<lparr>hand_sv := newHand\<rparr>),
                         discardPile_sv := discardPile_sv s @ [played]\<rparr>
              in if currentPlayerIndex_sv s \<noteq> playerIndex then
                   (if jumpIn cfg then
                      (case getTopCard_sv s of
                         None \<Rightarrow> Inl (TypeError_sv s)
                       | Some topCard \<Rightarrow>
                           if color played = color topCard
                              \<and> value_card played = value_card topCard
                           then
                             (let s2 = s1\<lparr>currentPlayerIndex_sv := playerIndex,
                                          selectedWildColor_sv := None,
                                          turnStartTime_sv := now env\<rparr>
                              in if length newHand = 0
                                 then Inr (s2\<lparr>phase_sv := Game_over,
                                             winner_sv := Some (playerId a)\<rparr>)
                                 else advance_sv s2 0)
                           else Inr s)
                    else Inr s)
                 else
                   (case canPlayCard s played of
                      None \<Rightarrow> Inl (TypeError_sv s)
                    | Some ok \<Rightarrow>
                        if \<not> ok \<and> stackedDrawAmount_sv s = 0 then Inr s
                        else if color played = Wild_color then
                          (if wildColor a = None
                           then Inr (s1\<lparr>selectedWildColor_sv := None,
                                       phase_sv := Color_selection\<rparr>)
                           else finish_play env cfg (s1\<lparr>selectedWildColor_sv := wildColor a\<rparr>)
                                  a played playerIndex newHand)
                        else finish_play env cfg (s1\<lparr>selectedWildColor_sv := None\<rparr>)
                               a played playerIndex newHand)))"

definition draw_for ::
  "Env \<Rightarrow> ServerGameState \<Rightarrow> int \<Rightarrow> nat \<Rightarrow> server_failure + ServerGameState" where
  "draw_for env s i n =
     (let (cards, s1, bad) = drawCards_sv (random env) s n
      in case give_cards s1 i cards of
           None \<Rightarrow> Inl (TypeError_sv s1)
         | Some s2 \<Rightarrow> if bad then Inl (UndefinedCard_sv s2) else Inr s2)"

definition set_called_sv :: "ServerGameState \<Rightarrow> int \<Rightarrow> bool \<Rightarrow> ServerGameState" where
  "set_called_sv s i b =
     (case nth_js (players_sv s) i of
        None \<Rightarrow> s
      | Some p \<Rightarrow> s\<lparr>players_sv := set_index (players_sv s) i (p\<lparr>hasCalledUno_sv := b\<rparr>)\<rparr>)"

definition accept_offer_sv :: "ServerGameState \<Rightarrow> server_failure + ServerGameState" where
  "accept_offer_sv s =
     (if phase_sv s \<noteq> Offering_card then Inr s
      else case pendingAction_sv s of
        None \<Rightarrow> Inr s
      | Some pa \<Rightarrow>
          (let offererIndex = findIndex (\<lambda>p. Some (id_sv p) = offererId pa) (players_sv s);
               targetIndex = findIndex (\<lambda>p. Some (id_sv p) = targetPlayer pa) (players_sv s)
           in case nth_js (players_sv s) offererIndex of
                None \<Rightarrow> Inr s
              | Some offerer \<Rightarrow>
                  if nth_js (players_sv s) targetIndex = None then Inr s
                  else
                    (let cardIndex = findIndex (\<lambda>c. Some (id_card c) = offeredCardId pa)
                                       (hand_sv offerer)
                     in case nth_js (hand_sv offerer) cardIndex of
                          None \<Rightarrow> Inr s
                        | Some offered \<Rightarrow>
                            (let s1 = s\<lparr>players_sv := set_index (players_sv s) offererIndex
                                           (offerer\<lparr>hand_sv :=
                                              take (nat cardIndex) (hand_sv offerer)
                                              @ drop (nat cardIndex + 1) (hand_sv offerer)\<rparr>)\<rparr>
                             in case give_cards s1 targetIndex [offered] of
                                  None \<Rightarrow> Inr s
                                | Some s2 \<Rightarrow>
                                    Inr (s2\<lparr>phase_sv := Playing,
                                            pendingAction_sv := None\<rparr>)))))"

definition handleAction ::
  "Env \<Rightarrow> EnabledRules \<Rightarrow> ServerGameState \<Rightarrow> GameAction \<Rightarrow> server_failure + ServerGameState" where
  "handleAction env cfg s a =
     (if phase_sv s = Game_over then Inr s
      else
        (let playerIndex = findIndex (\<lambda>p. id_sv p = playerId a) (players_sv s)
         in case nth_js (players_sv s) playerIndex of
              None \<Rightarrow> Inr s
            | Some player \<Rightarrow>
                (case type_action a of
                   Play_card \<Rightarrow> play_card_sv env cfg s a playerIndex player
                 | Draw_card \<Rightarrow>
                     if currentPlayerIndex_sv s \<noteq> playerIndex then Inr s
                     else
                       (case draw_for env s playerIndex
                               (if stackedDrawAmount_sv s > 0 then stackedDrawAmount_sv s else 1) of
                          Inl (UndefinedCard_sv s2) \<Rightarrow>
                            (case advance_sv (s2\<lparr>stackedDrawAmount_sv := 0\<rparr>) 0 of
                               Inl f \<Rightarrow> Inl f
                             | Inr s3 \<Rightarrow>
                                 Inl (UndefinedCard_sv
                                        (set_called_sv (s3\<lparr>turnStartTime_sv := now env\<rparr>)
                                           playerIndex False)))
                        | Inl f \<Rightarrow> Inl f
                        | Inr s2 \<Rightarrow>
                            (case advance_sv (s2\<lparr>stackedDrawAmount_sv := 0\<rparr>) 0 of
                               Inl f \<Rightarrow> Inl f
                             | Inr s3 \<Rightarrow>
                                 Inr (set_called_sv (s3\<lparr>turnStartTime_sv := now env\<rparr>)
                                        playerIndex False)))
                 | Select_color \<Rightarrow>
                     if phase_sv s \<noteq> Color_selection then Inr s
                     else
                       (case advance_sv (s\<lparr>selectedWildColor_sv := wildColor a,
                                           phase_sv := Playing\<rparr>) 0 of
                          Inl f \<Rightarrow> Inl f
                        | Inr s1 \<Rightarrow> Inr (s1\<lparr>turnStartTime_sv := now env\<rparr>))
                 | Call_uno \<Rightarrow>
                     if length (hand_sv player) \<le> 2
                     then Inr (set_called_sv s playerIndex True) else Inr s
                 | Catch_uno \<Rightarrow>
                     (let targetIndex = findIndex (\<lambda>p. Some (id_sv p) = targetPlayerId a)
                                          (players_sv s)
                      in case nth_js (players_sv s) targetIndex of
                           None \<Rightarrow> Inr s
                         | Some target \<Rightarrow>
                             if length (hand_sv target) = 1 \<and> \<not> hasCalledUno_sv target
                             then draw_for env s targetIndex 2 else Inr s)
                 | Slap \<Rightarrow>
                     if phase_sv s \<noteq> Slap_race then Inr s
                     else Inr (s\<lparr>phase_sv := Playing, pendingAction_sv := None\<rparr>)
                 | Create_custom_rule \<Rightarrow>
                     if phase_sv s \<noteq> Custom_rule_creation then Inr s
                     else
                       (case customRule a of
                          None \<Rightarrow> Inl (TypeError_sv s)
                        | Some draft \<Rightarrow>
                            (case advance_sv
                                    (s\<lparr>customRules_sv := customRules_sv s
                                          @ [\<lparr>id_rule = uuidv4 env, text_rule = text_draft draft,
                                              type_rule = type_draft draft,
                                              createdBy = playerId a, createdAt = now env\<rparr>],
                                       phase_sv := Playing\<rparr>) 0 of
                               Inl f \<Rightarrow> Inl f
                             | Inr s1 \<Rightarrow> Inr (s1\<lparr>turnStartTime_sv := now env\<rparr>)))
                 | Report_speaking \<Rightarrow>
                     if \<not> silenceMode_sv s then Inr s
                     else
                       (let targetIndex = findIndex (\<lambda>p. Some (id_sv p) = targetPlayerId a)
                                            (players_sv s)
                        in if nth_js (players_sv s) targetIndex = None then Inr s
                           else draw_for env s targetIndex 1)
                 | Request_card \<Rightarrow>
                     if \<not> offerCard cfg then Inr s
                     else
                       (case find (\<lambda>p. Some (id_sv p) = targetPlayerId a) (players_sv s) of
                          None \<Rightarrow> Inr s
                        | Some target \<Rightarrow>
                            if length (hand_sv target) = 0 then Inr s
                            else Inr (s\<lparr>phase_sv := Card_request,
                                         pendingAction_sv := Some
                                           \<lparr>type_pending = Card_request_pending,
                                            targetPlayer = targetPlayerId a,
                                            requesterId = Some (playerId a), amount = None,
                                            deadline = None, offeredCardId = None,
                                            offererId = None\<rparr>\<rparr>))
                 | Decline_request \<Rightarrow>
                     if phase_sv s \<noteq> Card_request then Inr s
                     else
                       (case pendingAction_sv s of
                          None \<Rightarrow> Inr s
                        | Some pa \<Rightarrow>
                            if targetPlayer pa \<noteq> Some (playerId a) then Inr s
                            else Inr (s\<lparr>phase_sv := Playing, pendingAction_sv := None\<rparr>))
                 | Offer_card \<Rightarrow>
                     if phase_sv s \<noteq> Card_request then Inr s
                     else
                       (case pendingAction_sv s of
                          None \<Rightarrow> Inr s
                        | Some pa \<Rightarrow>
                            if targetPlayer pa \<noteq> Some (playerId a) then Inr s
                            else Inr (s\<lparr>phase_sv := Offering_card,
                                         pendingAction_sv := Some
                                           \<lparr>type_pending = Offer_decision_pending,
                                            targetPlayer = requesterId pa,
                                            requesterId = requesterId pa, amount = None,
                                            deadline = None, offeredCardId = cardId a,
                                            offererId = Some (playerId a)\<rparr>\<rparr>))
                 | Accept_offer \<Rightarrow> accept_offer_sv s
                 | Decline_offer \<Rightarrow>
                     if phase_sv s \<noteq> Offering_card then Inr s
                     else Inr (s\<lparr>phase_sv := Playing, pendingAction_sv := None\<rparr>)
                 | _ \<Rightarrow> Inr s)))"

text \<open>\<open>getStateForPlayer\<close>: the snapshot sent to the player \<open>pid\<close>.\<close>

definition hiddenCard :: Card where
  "hiddenCard = \<lparr>id_card = ''hidden'', color = Wild_color, value_card = Wild\<rparr>"

definition getStateForPlayer :: "ServerGameState \<Rightarrow> string \<Rightarrow> ServerGameState" where
  "getStateForPlayer s pid =
     s\<lparr>players_sv := map (\<lambda>p. p\<lparr>hand_sv := (if id_sv p = pid then hand_sv p
                                                else map (\<lambda>_. hiddenCard) (hand_sv p))\<rparr>)
                         (players_sv s),
       drawPile_sv := []\<rparr>"

section \<open>Concrete cards, players and games\<close>

definition mkCard :: "string \<Rightarrow> CardColor \<Rightarrow> CardValue \<Rightarrow> Card" where
  "mkCard i c v = \<lparr>id_card = i, color = c, value_card = v\<rparr>"

definition mkPlayer :: "string \<Rightarrow> Card list \<Rightarrow> Player" where
  "mkPlayer pid cards =
     \<lparr>id_player = pid, name = pid, hand = cards, hasCalledUno = False, isConnected = True,
      type_player = Human, avatar = None\<rparr>"

definition mkState :: "Player list \<Rightarrow> int \<Rightarrow> int \<Rightarrow> Card list \<Rightarrow> Card list \<Rightarrow> GameState" where
  "mkState ps cur dir pile discard =
     \<lparr>id_state = ''game'', phase = Playing, players = ps, currentPlayerIndex = cur,
      direction = dir, drawPile = pile, discardPile = discard, pendingAction = None,
      customRules = [], silenceMode = False, stackedDrawAmount = 0, turnStartTime = 0,
      winner = None, lastAction = None\<rparr>"

definition mkRules :: "bool \<Rightarrow> EnabledRules" where
  "mkRules b = \<lparr>silence = b, customRuleEnabled = b, stackDraw = b, stackSkip = b, slap = b,
                jumpIn = b, unoCall = b, offerCard = b\<rparr>"

definition mkEngine :: "GameState \<Rightarrow> bool \<Rightarrow> CardColor option \<Rightarrow> GameEngine" where
  "mkEngine s b sel =
     \<lparr>state = s,
      config = \<lparr>playerCount = length (players s), playerNames = map name (players s),
                enabledRules = mkRules b, aiDifficulty = None\<rparr>,
      selectedWildColor = sel\<rparr>"

definition mkAction ::
  "GameActionType \<Rightarrow> string \<Rightarrow> string option \<Rightarrow> CardColor option \<Rightarrow> GameAction" where
  "mkAction t pid cid col =
     \<lparr>type_action = t, playerId = pid, cardId = cid, targetPlayerId = None, wildColor = col,
      customRule = None, timestamp = None\<rparr>"

definition env0 :: Env where
  "env0 = \<lparr>now = 1000, random = [], uuidv4 = ''rule-1''\<rparr>"

definition mkServerPlayer :: "string \<Rightarrow> Card list \<Rightarrow> ServerPlayer" where
  "mkServerPlayer pid cards =
     \<lparr>id_sv = pid, name_sv = pid, hand_sv = cards, hasCalledUno_sv = False,
      isConnected_sv = True, socketId = pid\<rparr>"

definition mkServerState ::
  "ServerPlayer list \<Rightarrow> int \<Rightarrow> int \<Rightarrow> Card list \<Rightarrow> Card list \<Rightarrow> CardColor option
   \<Rightarrow> ServerGameState" where
  "mkServerState ps cur dir pile discard sel =
     \<lparr>id_state_sv = ''ROOM'', phase_sv = Playing, players_sv = ps,
      currentPlayerIndex_sv = cur, direction_sv = dir, drawPile_sv = pile,
      discardPile_sv = discard, pendingAction_sv = None, customRules_sv = [],
      silenceMode_sv = False, stackedDrawAmount_sv = 0, turnStartTime_sv = 0,
      winner_sv = None, selectedWildColor_sv = sel\<rparr>"

definition wildTop :: GameState where
  "wildTop =
     mkState [mkPlayer ''p1'' [mkCard ''w1'' Wild_color Wild, mkCard ''g9'' Green (Num 9)],
              mkPlayer ''ai'' [mkCard ''r3'' Red (Num 3), mkCard ''b7'' Blue (Num 7)]]
       0 1 [mkCard ''y1'' Yellow (Num 1)] [mkCard ''g4'' Green (Num 4)]"

definition afterWild :: GameState where
  "afterWild =
     (mkState [mkPlayer ''p1'' [mkCard ''g9'' Green (Num 9)],
              mkPlayer ''ai'' [mkCard ''r3'' Red (Num 3), mkCard ''b7'' Blue (Num 7)]]
       1 1 [mkCard ''y1'' Yellow (Num 1)]
       [mkCard ''g4'' Green (Num 4), mkCard ''w1'' Wild_color Wild])
     \<lparr>turnStartTime := 1000,
      lastAction := Some (mkAction Play_card ''p1'' (Some ''w1'') (Some Blue))\<rparr>"

definition aiEnv0 :: AIEnv where
  "aiEnv0 = \<lparr>movePick = 0, colorPick = 0, rulePick = 0, variance = 0, clock = 1000\<rparr>"

definition clientWild :: GameEngine where
  "clientWild =
     mkEngine (mkState [mkPlayer ''p1'' [mkCard ''w1'' Wild_color Wild, mkCard ''g9'' Green (Num 9)],
                        mkPlayer ''p2'' [mkCard ''r3'' Red (Num 3), mkCard ''b7'' Blue (Num 7)]]
                 0 1 [mkCard ''y1'' Yellow (Num 1)] [mkCard ''g4'' Green (Num 4)]) True None"

definition serverWild :: ServerGameState where
  "serverWild =
     mkServerState [mkServerPlayer ''p1'' [mkCard ''w1'' Wild_color Wild, mkCard ''g9'' Green (Num 9)],
                    mkServerPlayer ''p2'' [mkCard ''r3'' Red (Num 3), mkCard ''b7'' Blue (Num 7)]]
       0 1 [mkCard ''y1'' Yellow (Num 1)] [mkCard ''g4'' Green (Num 4)] None"


section \<open>Notions the properties are stated with\<close>

text \<open>The turn arithmetic as the specification writes it.\<close>

definition spec_next :: "int \<Rightarrow> int \<Rightarrow> int \<Rightarrow> int" where
  "spec_next cur dir n = (cur + dir + n) mod n"

text \<open>The pile \<open>forceDrawCards\<close> draws \<open>n\<close> cards from, after its reshuffle.\<close>

definition reshuffled :: "Env \<Rightarrow> GameState \<Rightarrow> nat \<Rightarrow> Card list" where
  "reshuffled env s n =
     (if length (drawPile s) < n
      then shuffleDeck (random env) (drawPile s @ butlast (discardPile s))
      else drawPile s)"

text \<open>
  Two server states are the same for the observer \<open>pid\<close> when they differ at most in the
  draw pile and in the cards that players other than \<open>pid\<close> hold, hand by hand of equal
  length.
\<close>

definition same_for :: "string \<Rightarrow> ServerGameState \<Rightarrow> ServerGameState \<Rightarrow> bool" where
  "same_for pid s t =
     (s\<lparr>players_sv := [], drawPile_sv := []\<rparr> = t\<lparr>players_sv := [], drawPile_sv := []\<rparr>
      \<and> list_all2 (\<lambda>p q. p\<lparr>hand_sv := []\<rparr> = q\<lparr>hand_sv := []\<rparr>
                         \<and> (if id_sv p = pid then hand_sv p = hand_sv q
                             else length (hand_sv p) = length (hand_sv q)))
           (players_sv s) (players_sv t))"

definition redact :: "string \<Rightarrow> ServerPlayer \<Rightarrow> ServerPlayer" where
  "redact pid p = (if id_sv p = pid then p
                   else p\<lparr>hand_sv := replicate (length (hand_sv p)) hiddenCard\<rparr>)"

section \<open>Arrays, the deck and the shuffle\<close>

lemma slice_zero: "slice xs 0 (int n) = take n xs"
  by (simp add: slice_def slice_bound_def min_def)

lemma slice_from_nat: "slice_from xs (int n) = drop n xs"
  by (simp add: slice_from_def slice_bound_def min_def)

lemma drawCards_eq: "drawCards deck n = (take n deck, drop n deck)"
  by (simp add: drawCards_def slice_zero slice_from_nat)

lemma length_swap: "length (swap i j xs) = length xs"
  by (simp add: swap_def)

lemma mset_swap_js: "i < length xs \<Longrightarrow> j < length xs \<Longrightarrow> mset (swap i j xs) = mset xs"
  unfolding swap_def by (simp add: mset_swap)

lemma length_shuffle_from: "length (shuffle_from k rs xs) = length xs"
  by (induction k arbitrary: rs xs) (simp_all add: length_swap)

lemma mset_shuffle_from: "k < length xs \<Longrightarrow> mset (shuffle_from k rs xs) = mset xs"
proof (induction k arbitrary: rs xs)
  case 0
  then show ?case by simp
next
  case (Suc k)
  have "(case rs of [] \<Rightarrow> 0 | r # _ \<Rightarrow> r) mod Suc (Suc k) < Suc (Suc k)"
    by simp
  then have j: "(case rs of [] \<Rightarrow> 0 | r # _ \<Rightarrow> r) mod Suc (Suc k) < length xs"
    using Suc.prems by linarith
  show ?case using Suc j by (simp add: mset_swap_js length_swap)
qed

lemma length_shuffleDeck: "length (shuffleDeck rs xs) = length xs"
  by (simp add: shuffleDeck_def length_shuffle_from)

lemma mset_shuffleDeck: "mset (shuffleDeck rs xs) = mset xs"
proof (cases xs)
  case Nil
  then show ?thesis by (simp add: shuffleDeck_def)
next
  case (Cons a list)
  then show ?thesis by (simp add: shuffleDeck_def mset_shuffle_from)
qed

section \<open>The effective colour\<close>

text \<open>
  C10. \<open>getCurrentColor\<close> answers the chosen colour when the top card is wild and a colour
  is given, the top card's own colour when the top card is not wild, and red when the
  top card is wild and no colour is given. The opponent's policy computes its legal
  moves from the call without a chosen colour, so on a wild top card it takes red for
  the effective colour.
\<close>

theorem getCurrentColor_wild_defaults_red:
  "(color topCard = Wild_color \<longrightarrow> getCurrentColor topCard (Some chosen) = chosen)
   \<and> (color topCard \<noteq> Wild_color \<longrightarrow> getCurrentColor topCard sel = color topCard)
   \<and> (color topCard = Wild_color \<longrightarrow> getCurrentColor topCard None = Red)
   \<and> validMoves_ai topCard player =
       filter (\<lambda>c. isPlayable c topCard
                      (if color topCard = Wild_color then Red else color topCard))
         (hand player)"
  by (simp add: getCurrentColor_def validMoves_ai_def)

theorem getCurrentColor_wild_defaults_red_witness:
  "getCurrentColor (mkCard ''w1'' Wild_color Wild) (Some Blue) = Blue
   \<and> getCurrentColor (mkCard ''g4'' Green (Num 4)) (Some Blue) = Green
   \<and> getCurrentColor (mkCard ''w1'' Wild_color Wild) None = Red
   \<and> validMoves_ai (mkCard ''w1'' Wild_color Wild)
        (mkPlayer ''p1'' [mkCard ''r3'' Red (Num 3), mkCard ''b3'' Blue (Num 3)])
      = [mkCard ''r3'' Red (Num 3)]"
  using getCurrentColor_wild_defaults_red [of "mkCard ''w1'' Wild_color Wild" Blue "Some Blue"
      "mkPlayer ''p1'' [mkCard ''r3'' Red (Num 3), mkCard ''b3'' Blue (Num 3)]"]
    getCurrentColor_wild_defaults_red [of "mkCard ''g4'' Green (Num 4)" Blue "Some Blue"
      "mkPlayer ''p1'' []"]
  by (simp add: mkCard_def mkPlayer_def isPlayable_def)

section \<open>Turn order\<close>

lemma wrap_up:
  fixes c n :: int
  assumes "0 \<le> c" and "c < n"
  shows "(c + 1 + n) mod n = (if n \<le> c + 1 then 0 else c + 1)"
proof -
  have "(c + 1 + n) mod n = (c + 1) mod n" by simp
  moreover have "n \<le> c + 1 \<Longrightarrow> c + 1 = n" using assms by simp
  moreover have "\<not> n \<le> c + 1 \<Longrightarrow> (c + 1) mod n = c + 1" using assms by simp
  ultimately show ?thesis by auto
qed

lemma wrap_down:
  fixes c n :: int
  assumes "0 \<le> c" and "c < n"
  shows "(c + - 1 + n) mod n = (if c + - 1 < 0 then n - 1 else c + - 1)"
proof (cases "c = 0")
  case True
  have "- 1 mod n = n - 1" using assms by (simp add: zmod_minus1)
  then show ?thesis using True by simp
next
  case False
  have "(c + - 1 + n) mod n = (c + - 1) mod n" by simp
  moreover have "(c + - 1) mod n = c + - 1" using assms False by simp
  ultimately show ?thesis using assms False by simp
qed

lemma advanceTurn_index:
  assumes "direction s = 1 \<or> direction s = - 1"
    and "0 \<le> currentPlayerIndex s" and "currentPlayerIndex s < int (length (players s))"
  shows "currentPlayerIndex (advanceTurn env s)
         = spec_next (currentPlayerIndex s) (direction s) (int (length (players s)))"
proof -
  let ?n = "int (length (players s))"
  let ?c = "currentPlayerIndex s"
  from assms(1) show ?thesis
  proof
    assume d: "direction s = 1"
    have "currentPlayerIndex (advanceTurn env s) = (if ?n \<le> ?c + 1 then 0 else ?c + 1)"
      using d assms(2) by (simp add: advanceTurn_def Let_def)
    then show ?thesis using wrap_up [OF assms(2,3)] d by (simp add: spec_next_def)
  next
    assume d: "direction s = - 1"
    have "currentPlayerIndex (advanceTurn env s) = (if ?c + - 1 < 0 then ?n - 1 else ?c + - 1)"
      using d assms(3) by (simp add: advanceTurn_def Let_def)
    then show ?thesis using wrap_down [OF assms(2,3)] d by (simp add: spec_next_def)
  qed
qed

lemma advanceTurn_range:
  assumes "players s \<noteq> []"
  shows "0 \<le> currentPlayerIndex (advanceTurn env s)"
    and "currentPlayerIndex (advanceTurn env s) < int (length (players s))"
  using assms by (simp_all add: advanceTurn_def Let_def)

lemma advanceTurn_fields [simp]:
  "players (advanceTurn env s) = players s"
  "direction (advanceTurn env s) = direction s"
  "drawPile (advanceTurn env s) = drawPile s"
  "discardPile (advanceTurn env s) = discardPile s"
  "phase (advanceTurn env s) = phase s"
  "stackedDrawAmount (advanceTurn env s) = stackedDrawAmount s"
  "pendingAction (advanceTurn env s) = pendingAction s"
  "winner (advanceTurn env s) = winner s"
  by (simp_all add: advanceTurn_def Let_def)

lemma advanceTurn_twice_index:
  assumes "direction s = 1 \<or> direction s = - 1"
    and "0 \<le> currentPlayerIndex s" and "currentPlayerIndex s < int (length (players s))"
  shows "currentPlayerIndex (advanceTurn env (advanceTurn env s))
         = spec_next (spec_next (currentPlayerIndex s) (direction s) (int (length (players s))))
             (direction s) (int (length (players s)))"
proof -
  have ne: "players s \<noteq> []" using assms(2,3) by auto
  have "currentPlayerIndex (advanceTurn env (advanceTurn env s))
        = spec_next (currentPlayerIndex (advanceTurn env s)) (direction (advanceTurn env s))
            (int (length (players (advanceTurn env s))))"
    using assms(1) advanceTurn_range [OF ne, of env]
    by (intro advanceTurn_index) simp_all
  then show ?thesis using advanceTurn_index [OF assms, of env] by simp
qed

text \<open>
  C4. One turn advance moves the index of the current player to
  \<open>(current + direction + playerCount) mod playerCount\<close>, in both directions, for two
  players or more. A skip card advances twice: from 0 to 2 with four players and
  direction +1. A reverse card flips the direction and advances once with more than two
  players; with exactly two players it advances twice, as a skip does, and the turn
  returns to the player who played it.
\<close>

theorem turn_advance_arithmetic:
  assumes "direction s = 1 \<or> direction s = - 1"
    and "0 \<le> currentPlayerIndex s" and "currentPlayerIndex s < int (length (players s))"
    and "2 \<le> length (players s)"
  shows "currentPlayerIndex (advanceTurn env s)
           = spec_next (currentPlayerIndex s) (direction s) (int (length (players s)))
         \<and> (value_card c = Skip \<longrightarrow>
              (\<exists>s'. applyCardEffects env cfg s c i = Inr s' \<and> direction s' = direction s
                 \<and> currentPlayerIndex s'
                     = spec_next (spec_next (currentPlayerIndex s) (direction s)
                                    (int (length (players s))))
                         (direction s) (int (length (players s)))
                 \<and> (length (players s) = 4 \<and> currentPlayerIndex s = 0 \<and> direction s = 1
                      \<longrightarrow> currentPlayerIndex s' = 2)))
         \<and> (value_card c = Reverse \<and> length (players s) \<noteq> 2 \<longrightarrow>
              (\<exists>s'. applyCardEffects env cfg s c i = Inr s' \<and> direction s' = - direction s
                 \<and> currentPlayerIndex s'
                     = spec_next (currentPlayerIndex s) (- direction s) (int (length (players s)))))
         \<and> (value_card c = Reverse \<and> length (players s) = 2 \<longrightarrow>
              (\<exists>s'. applyCardEffects env cfg s c i = Inr s' \<and> direction s' = - direction s
                 \<and> currentPlayerIndex s'
                     = spec_next (spec_next (currentPlayerIndex s) (- direction s) 2)
                         (- direction s) 2
                 \<and> currentPlayerIndex s' = currentPlayerIndex s))"
proof (intro conjI impI)
  show "currentPlayerIndex (advanceTurn env s)
           = spec_next (currentPlayerIndex s) (direction s) (int (length (players s)))"
    using assms(1-3) by (rule advanceTurn_index)
next
  assume c: "value_card c = Skip"
  then have e: "applyCardEffects env cfg s c i = Inr (advanceTurn env (advanceTurn env s))"
    by (simp add: applyCardEffects_def isDrawCard_def isSkipCard_def)
  have i2: "currentPlayerIndex (advanceTurn env (advanceTurn env s))
         = spec_next (spec_next (currentPlayerIndex s) (direction s) (int (length (players s))))
             (direction s) (int (length (players s)))"
    using assms(1-3) by (rule advanceTurn_twice_index)
  have "length (players s) = 4 \<and> currentPlayerIndex s = 0 \<and> direction s = 1
        \<longrightarrow> currentPlayerIndex (advanceTurn env (advanceTurn env s)) = 2"
    using i2 by (simp add: spec_next_def)
  then show "\<exists>s'. applyCardEffects env cfg s c i = Inr s' \<and> direction s' = direction s
                 \<and> currentPlayerIndex s'
                     = spec_next (spec_next (currentPlayerIndex s) (direction s)
                                    (int (length (players s))))
                         (direction s) (int (length (players s)))
                 \<and> (length (players s) = 4 \<and> currentPlayerIndex s = 0 \<and> direction s = 1
                      \<longrightarrow> currentPlayerIndex s' = 2)"
    using e i2 by simp
next
  let ?r = "s\<lparr>direction := direction s * (- 1)\<rparr>"
  have d: "direction ?r = 1 \<or> direction ?r = - 1" using assms(1) by auto
  assume c: "value_card c = Reverse \<and> length (players s) \<noteq> 2"
  then have e: "applyCardEffects env cfg s c i = Inr (advanceTurn env ?r)"
    by (simp add: applyCardEffects_def isDrawCard_def isSkipCard_def isReverseCard_def)
  have "currentPlayerIndex (advanceTurn env ?r)
         = spec_next (currentPlayerIndex ?r) (direction ?r) (int (length (players ?r)))"
    using d assms(2,3) by (intro advanceTurn_index) simp_all
  then show "\<exists>s'. applyCardEffects env cfg s c i = Inr s' \<and> direction s' = - direction s
                 \<and> currentPlayerIndex s'
                     = spec_next (currentPlayerIndex s) (- direction s) (int (length (players s)))"
    using e by simp
next
  let ?r = "s\<lparr>direction := direction s * (- 1)\<rparr>"
  have d: "direction ?r = 1 \<or> direction ?r = - 1" using assms(1) by auto
  assume c: "value_card c = Reverse \<and> length (players s) = 2"
  then have e: "applyCardEffects env cfg s c i = Inr (advanceTurn env (advanceTurn env ?r))"
    by (simp add: applyCardEffects_def isDrawCard_def isSkipCard_def isReverseCard_def)
  have i2: "currentPlayerIndex (advanceTurn env (advanceTurn env ?r))
         = spec_next (spec_next (currentPlayerIndex ?r) (direction ?r) (int (length (players ?r))))
             (direction ?r) (int (length (players ?r)))"
    using d assms(2,3) by (intro advanceTurn_twice_index) simp_all
  have "currentPlayerIndex s = 0 \<or> currentPlayerIndex s = 1" using assms(2,3) c by auto
  then have "spec_next (spec_next (currentPlayerIndex s) (- direction s) 2) (- direction s) 2
             = currentPlayerIndex s"
    using assms(1) by (auto simp: spec_next_def)
  then show "\<exists>s'. applyCardEffects env cfg s c i = Inr s' \<and> direction s' = - direction s
                 \<and> currentPlayerIndex s'
                     = spec_next (spec_next (currentPlayerIndex s) (- direction s) 2)
                         (- direction s) 2
                 \<and> currentPlayerIndex s' = currentPlayerIndex s"
    using e i2 c by simp
qed

theorem turn_advance_arithmetic_witness:
  "currentPlayerIndex
     (advanceTurn env0
        (mkState [mkPlayer ''p1'' [], mkPlayer ''p2'' [], mkPlayer ''p3'' [], mkPlayer ''p4'' []]
           0 1 [] [])) = 1
   \<and> map_sum (\<lambda>f. ()) currentPlayerIndex
        (applyCardEffects env0 (config (mkEngine (mkState [] 0 1 [] []) False None))
           (mkState [mkPlayer ''p1'' [], mkPlayer ''p2'' [], mkPlayer ''p3'' [], mkPlayer ''p4'' []]
              0 1 [] [])
           (mkCard ''rs'' Red Skip) 0) = Inr 2
   \<and> map_sum (\<lambda>f. ()) (\<lambda>s. (direction s, currentPlayerIndex s))
        (applyCardEffects env0 (config (mkEngine (mkState [] 0 1 [] []) False None))
           (mkState [mkPlayer ''p1'' [], mkPlayer ''p2'' [], mkPlayer ''p3'' [], mkPlayer ''p4'' []]
              0 1 [] [])
           (mkCard ''rr'' Red Reverse) 0) = Inr (- 1, 3)
   \<and> map_sum (\<lambda>f. ()) (\<lambda>s. (direction s, currentPlayerIndex s))
        (applyCardEffects env0 (config (mkEngine (mkState [] 0 1 [] []) False None))
           (mkState [mkPlayer ''p1'' [], mkPlayer ''p2'' []] 0 1 [] [])
           (mkCard ''rr'' Red Reverse) 0) = Inr (- 1, 0)"
  using turn_advance_arithmetic [of
      "mkState [mkPlayer ''p1'' [], mkPlayer ''p2'' [], mkPlayer ''p3'' [], mkPlayer ''p4'' []]
         0 1 [] []" env0 "mkCard ''rs'' Red Skip"
      "config (mkEngine (mkState [] 0 1 [] []) False None)" 0]
    turn_advance_arithmetic [of
      "mkState [mkPlayer ''p1'' [], mkPlayer ''p2'' [], mkPlayer ''p3'' [], mkPlayer ''p4'' []]
         0 1 [] []" env0 "mkCard ''rr'' Red Reverse"
      "config (mkEngine (mkState [] 0 1 [] []) False None)" 0]
    turn_advance_arithmetic [of
      "mkState [mkPlayer ''p1'' [], mkPlayer ''p2'' []] 0 1 [] []" env0
      "mkCard ''rr'' Red Reverse" "config (mkEngine (mkState [] 0 1 [] []) False None)" 0]
  by (auto simp: mkState_def mkCard_def spec_next_def)

section \<open>Rejected actions\<close>

lemma reject_reason: "reason (reject r) = Some r" "\<not> valid (reject r)" "valid accept"
  by (simp_all add: reject_def accept_def)

lemma validate_play_card_reason:
  assumes "validate_play_card e a player = Inr v" and "\<not> valid v"
  shows "\<exists>r. reason v = Some r"
proof -
  have "v = accept \<or> (\<exists>r. v = reject r)"
    using assms(1) unfolding validate_play_card_def
    by (simp split: if_splits option.splits sum.splits) auto
  then show ?thesis using assms(2) by (auto simp: reject_reason)
qed

lemma validateAction_reason:
  assumes "validateAction e a = Inr v" and "\<not> valid v"
  shows "\<exists>r. reason v = Some r"
proof (cases "find (\<lambda>p. id_player p = playerId a) (players (state e))")
  case None
  then have "v = reject ''Player not found''"
    using assms(1) by (simp add: validateAction_def)
  then show ?thesis by (simp add: reject_reason)
next
  case (Some player)
  show ?thesis
  proof (cases "type_action a = Play_card")
    case True
    then have "validate_play_card e a player = Inr v"
      using assms(1) Some by (simp add: validateAction_def)
    then show ?thesis using assms(2) by (rule validate_play_card_reason)
  next
    case False
    then have "v = accept \<or> (\<exists>r. v = reject r)"
      using assms(1) Some unfolding validateAction_def
      by (cases "type_action a") (auto split: if_splits option.splits)
    then show ?thesis using assms(2) by (auto simp: reject_reason)
  qed
qed

text \<open>
  C5. When validation fails, \<open>dispatch\<close> returns the engine as it was: the same state in
  every field, so no player's hand and neither pile changes, and the same chosen colour.
  The rejection is reported by one \<open>action_rejected\<close> event that carries the action and
  the reason, and a reason is always given.
\<close>

theorem rejected_action_leaves_state:
  assumes "validateAction e a = Inr v" and "\<not> valid v"
  shows "\<exists>r. reason v = Some r \<and> dispatch env e a = Inr (e, [Action_rejected a (Some r)])"
  using assms validateAction_reason [OF assms] by (auto simp: dispatch_def)

theorem rejected_action_leaves_state_witness:
  "dispatch env0
     (mkEngine (mkState [mkPlayer ''p1'' [mkCard ''r3'' Red (Num 3)],
                         mkPlayer ''p2'' [mkCard ''b7'' Blue (Num 7)]]
                  0 1 [] [mkCard ''r5'' Red (Num 5)]) True None)
     (mkAction Draw_card ''p2'' None None)
   = Inr (mkEngine (mkState [mkPlayer ''p1'' [mkCard ''r3'' Red (Num 3)],
                             mkPlayer ''p2'' [mkCard ''b7'' Blue (Num 7)]]
                      0 1 [] [mkCard ''r5'' Red (Num 5)]) True None,
          [Action_rejected (mkAction Draw_card ''p2'' None None) (Some ''Not your turn'')])"
  using rejected_action_leaves_state [of
      "mkEngine (mkState [mkPlayer ''p1'' [mkCard ''r3'' Red (Num 3)],
                          mkPlayer ''p2'' [mkCard ''b7'' Blue (Num 7)]]
                   0 1 [] [mkCard ''r5'' Red (Num 5)]) True None"
      "mkAction Draw_card ''p2'' None None" "reject ''Not your turn''" env0]
  by (simp add: validateAction_def mkEngine_def mkState_def mkPlayer_def mkAction_def
      nth_js_def reject_def)

section \<open>Drawing from the pile\<close>

lemma forceDrawCards_known:
  assumes "nth_js (players s) (findIndex (\<lambda>p. id_player p = pid) (players s)) = Some player"
    and "discardPile s \<noteq> []"
  shows "forceDrawCards env s pid n =
           Inr (s\<lparr>players := set_index (players s) (findIndex (\<lambda>p. id_player p = pid) (players s))
                              (player\<lparr>hand := hand player @ take n (reshuffled env s n)\<rparr>),
                  drawPile := drop n (reshuffled env s n),
                  discardPile := (if length (drawPile s) < n then [last (discardPile s)]
                                  else discardPile s)\<rparr>)"
  using assms by (simp add: forceDrawCards_def Let_def drawCards_eq reshuffled_def)

lemma length_reshuffled:
  "length (reshuffled env s n) =
     (if length (drawPile s) < n then length (drawPile s) + (length (discardPile s) - 1)
      else length (drawPile s))"
  by (simp add: reshuffled_def length_shuffleDeck)

lemma mset_reshuffled:
  "length (drawPile s) < n \<Longrightarrow>
   mset (reshuffled env s n) = mset (drawPile s) + mset (butlast (discardPile s))"
  by (simp add: reshuffled_def mset_shuffleDeck)

text \<open>
  C8, as the specification states it, fails: \<open>drawCards\<close> has no error to return. Asked
  for two cards of a one-card deck it returns the one card, and \<open>forceDrawCards\<close> asked
  for two cards when the draw pile is empty and the discard pile holds its top card
  alone returns normally, the player's hand as it was.
\<close>

theorem drawCards_insufficient_counterexample:
  "drawCards [mkCard ''r3'' Red (Num 3)] 2 = ([mkCard ''r3'' Red (Num 3)], [])
   \<and> forceDrawCards env0 (mkState [mkPlayer ''p1'' []] 0 1 [] [mkCard ''r5'' Red (Num 5)])
        ''p1'' 2
      = Inr (mkState [mkPlayer ''p1'' []] 0 1 [] [mkCard ''r5'' Red (Num 5)])"
  by (simp add: forceDrawCards_def mkState_def mkPlayer_def findIndex_def nth_js_def
      set_index_def drawCards_eq shuffleDeck_def Let_def)

text \<open>
  C8, amended. \<open>drawCards deck n\<close> returns the first \<open>n\<close> cards of the deck and the
  rest, and all of the deck when it holds fewer than \<open>n\<close> cards; it never fails.
  \<open>forceDrawCards\<close>, for a known player and a discard pile that is not empty, reshuffles
  when the draw pile holds fewer than \<open>n\<close> cards (the top of the discard pile stays as
  the one-card discard pile, the rest is shuffled with what is left of the draw pile)
  and gives the player the first \<open>n\<close> cards of the pile, or all the cards available
  when they are fewer than \<open>n\<close>, without an error.
\<close>

theorem drawCards_returns_what_is_there:
  "drawCards deck n = (take n deck, drop n deck)
   \<and> length (fst (drawCards deck n)) = min n (length deck)
   \<and> (nth_js (players s) (findIndex (\<lambda>p. id_player p = pid) (players s)) = Some player
        \<and> discardPile s \<noteq> [] \<longrightarrow>
      (\<exists>s' drawn.
         forceDrawCards env s pid n = Inr s'
         \<and> players s' = set_index (players s) (findIndex (\<lambda>p. id_player p = pid) (players s))
                           (player\<lparr>hand := hand player @ drawn\<rparr>)
         \<and> length drawn
             = min n (if length (drawPile s) < n
                      then length (drawPile s) + (length (discardPile s) - 1)
                      else length (drawPile s))
         \<and> (n \<le> length (drawPile s) \<longrightarrow>
              drawn = take n (drawPile s) \<and> drawPile s' = drop n (drawPile s)
              \<and> discardPile s' = discardPile s)
         \<and> (length (drawPile s) < n \<longrightarrow>
              discardPile s' = [last (discardPile s)]
              \<and> mset drawn + mset (drawPile s')
                  = mset (drawPile s) + mset (butlast (discardPile s)))))"
proof (intro conjI impI)
  show "drawCards deck n = (take n deck, drop n deck)" by (rule drawCards_eq)
  show "length (fst (drawCards deck n)) = min n (length deck)"
    by (simp add: drawCards_eq min.commute)
  assume a: "nth_js (players s) (findIndex (\<lambda>p. id_player p = pid) (players s)) = Some player
        \<and> discardPile s \<noteq> []"
  let ?pile = "reshuffled env s n"
  let ?s' = "s\<lparr>players := set_index (players s) (findIndex (\<lambda>p. id_player p = pid) (players s))
                              (player\<lparr>hand := hand player @ take n ?pile\<rparr>),
                  drawPile := drop n ?pile,
                  discardPile := (if length (drawPile s) < n then [last (discardPile s)]
                                  else discardPile s)\<rparr>"
  have e: "forceDrawCards env s pid n = Inr ?s'"
    using a by (intro forceDrawCards_known) simp_all
  have l: "length (take n ?pile)
             = min n (if length (drawPile s) < n
                      then length (drawPile s) + (length (discardPile s) - 1)
                      else length (drawPile s))"
    by (simp add: length_reshuffled min.commute)
  have k: "n \<le> length (drawPile s) \<longrightarrow>
              take n ?pile = take n (drawPile s) \<and> drawPile ?s' = drop n (drawPile s)
              \<and> discardPile ?s' = discardPile s"
    by (simp add: reshuffled_def)
  have "mset (take n ?pile) + mset (drop n ?pile) = mset ?pile"
    by (metis append_take_drop_id mset_append)
  then have m: "length (drawPile s) < n \<longrightarrow>
              discardPile ?s' = [last (discardPile s)]
              \<and> mset (take n ?pile) + mset (drawPile ?s')
                  = mset (drawPile s) + mset (butlast (discardPile s))"
    by (simp add: mset_reshuffled)
  show "\<exists>s' drawn.
         forceDrawCards env s pid n = Inr s'
         \<and> players s' = set_index (players s) (findIndex (\<lambda>p. id_player p = pid) (players s))
                           (player\<lparr>hand := hand player @ drawn\<rparr>)
         \<and> length drawn
             = min n (if length (drawPile s) < n
                      then length (drawPile s) + (length (discardPile s) - 1)
                      else length (drawPile s))
         \<and> (n \<le> length (drawPile s) \<longrightarrow>
              drawn = take n (drawPile s) \<and> drawPile s' = drop n (drawPile s)
              \<and> discardPile s' = discardPile s)
         \<and> (length (drawPile s) < n \<longrightarrow>
              discardPile s' = [last (discardPile s)]
              \<and> mset drawn + mset (drawPile s')
                  = mset (drawPile s) + mset (butlast (discardPile s)))"
    apply (rule exI [of _ ?s'])
    apply (rule exI [of _ "take n ?pile"])
    using e l k m by simp
qed

theorem drawCards_returns_what_is_there_witness:
  "length (fst (drawCards [mkCard ''r3'' Red (Num 3)] 4)) = 1
   \<and> map_sum (\<lambda>f. ()) (\<lambda>s. (map (\<lambda>p. length (hand p)) (players s), length (drawPile s),
                                discardPile s))
        (forceDrawCards env0
           (mkState [mkPlayer ''p1'' [mkCard ''b7'' Blue (Num 7)]] 0 1 []
              [mkCard ''r3'' Red (Num 3), mkCard ''g4'' Green (Num 4),
               mkCard ''r5'' Red (Num 5)])
           ''p1'' 4)
      = Inr ([3], 0, [mkCard ''r5'' Red (Num 5)])"
proof -
  let ?s = "mkState [mkPlayer ''p1'' [mkCard ''b7'' Blue (Num 7)]] 0 1 []
              [mkCard ''r3'' Red (Num 3), mkCard ''g4'' Green (Num 4),
               mkCard ''r5'' Red (Num 5)]"
  have h: "nth_js (players ?s) (findIndex (\<lambda>p. id_player p = ''p1'') (players ?s))
             = Some (mkPlayer ''p1'' [mkCard ''b7'' Blue (Num 7)])
           \<and> discardPile ?s \<noteq> []"
    by (simp add: mkState_def mkPlayer_def findIndex_def nth_js_def)
  from drawCards_returns_what_is_there [of "[mkCard ''r3'' Red (Num 3)]" 4 ?s "''p1''"
      "mkPlayer ''p1'' [mkCard ''b7'' Blue (Num 7)]" env0] h
  obtain s' drawn where
    r: "forceDrawCards env0 ?s ''p1'' 4 = Inr s'"
    and p: "players s' = set_index (players ?s) (findIndex (\<lambda>p. id_player p = ''p1'') (players ?s))
                           ((mkPlayer ''p1'' [mkCard ''b7'' Blue (Num 7)])
                              \<lparr>hand := hand (mkPlayer ''p1'' [mkCard ''b7'' Blue (Num 7)]) @ drawn\<rparr>)"
    and l: "length drawn = min 4 (if length (drawPile ?s) < 4
                      then length (drawPile ?s) + (length (discardPile ?s) - 1)
                      else length (drawPile ?s))"
    and d: "length (drawPile ?s) < 4 \<longrightarrow>
              discardPile s' = [last (discardPile ?s)]
              \<and> mset drawn + mset (drawPile s')
                  = mset (drawPile ?s) + mset (butlast (discardPile ?s))"
    and f: "length (fst (drawCards [mkCard ''r3'' Red (Num 3)] 4)) = min 4 (length [mkCard ''r3'' Red (Num 3)])"
    by blast
  have l2: "length drawn = 2" using l by (simp add: mkState_def)
  have d2: "discardPile s' = [mkCard ''r5'' Red (Num 5)]" using d by (simp add: mkState_def)
  have "size (mset drawn + mset (drawPile s')) = 2" using d by (simp add: mkState_def)
  then have d3: "length (drawPile s') = 0" using l2 by simp
  have p2: "map (\<lambda>p. length (hand p)) (players s') = [3]"
    using p l2 by (simp add: mkState_def mkPlayer_def findIndex_def set_index_def)
  show ?thesis using r f l2 d2 d3 p2 by simp
qed

section \<open>The snapshot sent to a player\<close>

lemma redact_hand:
  "p\<lparr>hand_sv := (if id_sv p = pid then hand_sv p else map (\<lambda>_. hiddenCard) (hand_sv p))\<rparr>
   = redact pid p"
  by (simp add: redact_def map_replicate_const)

lemma snapshot_eq:
  "getStateForPlayer s pid = s\<lparr>players_sv := map (redact pid) (players_sv s), drawPile_sv := []\<rparr>"
  unfolding getStateForPlayer_def redact_hand ..

lemma snapshot_players:
  "players_sv (getStateForPlayer s pid) = map (redact pid) (players_sv s)"
  by (simp add: snapshot_eq)

lemma redact_same:
  assumes "p\<lparr>hand_sv := []\<rparr> = q\<lparr>hand_sv := []\<rparr>"
    and "if id_sv p = pid then hand_sv p = hand_sv q else length (hand_sv p) = length (hand_sv q)"
  shows "redact pid p = redact pid q"
proof -
  have "id_sv p = id_sv (p\<lparr>hand_sv := []\<rparr>)" by simp
  also have "\<dots> = id_sv q" using assms(1) by simp
  finally have i: "id_sv p = id_sv q" .
  have e: "p\<lparr>hand_sv := h\<rparr> = q\<lparr>hand_sv := h\<rparr>" for h
  proof -
    have "p\<lparr>hand_sv := h\<rparr> = (p\<lparr>hand_sv := []\<rparr>)\<lparr>hand_sv := h\<rparr>" by simp
    also have "\<dots> = (q\<lparr>hand_sv := []\<rparr>)\<lparr>hand_sv := h\<rparr>" using assms(1) by simp
    finally show ?thesis by simp
  qed
  show ?thesis
  proof (cases "id_sv p = pid")
    case True
    then have h: "hand_sv p = hand_sv q" using assms(2) by simp
    have "p = p\<lparr>hand_sv := hand_sv p\<rparr>" by simp
    also have "\<dots> = q\<lparr>hand_sv := hand_sv p\<rparr>" by (rule e)
    also have "\<dots> = q" by (simp add: h)
    finally show ?thesis by simp
  next
    case False
    then have "length (hand_sv p) = length (hand_sv q)" using assms(2) by simp
    then show ?thesis using False i e by (simp add: redact_def)
  qed
qed

lemma redact_all:
  assumes "list_all2 (\<lambda>p q. p\<lparr>hand_sv := []\<rparr> = q\<lparr>hand_sv := []\<rparr>
                         \<and> (if id_sv p = pid then hand_sv p = hand_sv q
                             else length (hand_sv p) = length (hand_sv q))) ps qs"
  shows "map (redact pid) ps = map (redact pid) qs"
  using assms
proof (induction rule: list_all2_induct)
  case Nil
  show ?case by simp
next
  case (Cons p ps q qs)
  have "redact pid p = redact pid q"
    using Cons.hyps(1) by (intro redact_same) simp_all
  then show ?case using Cons.IH by simp
qed

text \<open>
  C9. In the snapshot for the observer \<open>pid\<close> the hand of every player with another
  identifier is a list of placeholder cards of the same length, and the draw pile is
  empty. Two states that are the same for \<open>pid\<close>, differing at most in the cards of the
  other hands and in the draw pile, give the same snapshot.
\<close>

theorem snapshot_hides_other_hands:
  "players_sv (getStateForPlayer s pid)
     = map (\<lambda>p. if id_sv p = pid then p
                 else p\<lparr>hand_sv := replicate (length (hand_sv p)) hiddenCard\<rparr>) (players_sv s)
   \<and> drawPile_sv (getStateForPlayer s pid) = []
   \<and> (same_for pid s t \<longrightarrow> getStateForPlayer s pid = getStateForPlayer t pid)"
proof (intro conjI impI)
  show "players_sv (getStateForPlayer s pid)
     = map (\<lambda>p. if id_sv p = pid then p
                 else p\<lparr>hand_sv := replicate (length (hand_sv p)) hiddenCard\<rparr>) (players_sv s)"
    unfolding snapshot_players redact_def [abs_def] ..
  show "drawPile_sv (getStateForPlayer s pid) = []"
    by (simp add: snapshot_eq)
  assume a: "same_for pid s t"
  have m: "map (redact pid) (players_sv s) = map (redact pid) (players_sv t)"
    using a by (intro redact_all) (simp add: same_for_def)
  have r: "s\<lparr>players_sv := [], drawPile_sv := []\<rparr> = t\<lparr>players_sv := [], drawPile_sv := []\<rparr>"
    using a by (simp add: same_for_def)
  have "s\<lparr>players_sv := map (redact pid) (players_sv s), drawPile_sv := []\<rparr>
        = (s\<lparr>players_sv := [], drawPile_sv := []\<rparr>)\<lparr>players_sv := map (redact pid) (players_sv s)\<rparr>"
    by simp
  also have "\<dots> = (t\<lparr>players_sv := [], drawPile_sv := []\<rparr>)\<lparr>players_sv := map (redact pid) (players_sv t)\<rparr>"
    by (simp only: r m)
  also have "\<dots> = t\<lparr>players_sv := map (redact pid) (players_sv t), drawPile_sv := []\<rparr>"
    by simp
  finally show "getStateForPlayer s pid = getStateForPlayer t pid"
    by (simp only: snapshot_eq)
qed

theorem snapshot_hides_other_hands_witness:
  "getStateForPlayer
     (mkServerState [mkServerPlayer ''p1'' [mkCard ''r3'' Red (Num 3)],
                     mkServerPlayer ''p2'' [mkCard ''b7'' Blue (Num 7), mkCard ''w1'' Wild_color Wild]]
        0 1 [mkCard ''g4'' Green (Num 4)] [mkCard ''r5'' Red (Num 5)] None) ''p1''
   = getStateForPlayer
     (mkServerState [mkServerPlayer ''p1'' [mkCard ''r3'' Red (Num 3)],
                     mkServerPlayer ''p2'' [mkCard ''y1'' Yellow (Num 1), mkCard ''y2'' Yellow Skip]]
        0 1 [mkCard ''g9'' Green (Num 9), mkCard ''g8'' Green (Num 8)]
        [mkCard ''r5'' Red (Num 5)] None) ''p1''
   \<and> players_sv (getStateForPlayer
     (mkServerState [mkServerPlayer ''p1'' [mkCard ''r3'' Red (Num 3)],
                     mkServerPlayer ''p2'' [mkCard ''b7'' Blue (Num 7), mkCard ''w1'' Wild_color Wild]]
        0 1 [mkCard ''g4'' Green (Num 4)] [mkCard ''r5'' Red (Num 5)] None) ''p1'')
     = [mkServerPlayer ''p1'' [mkCard ''r3'' Red (Num 3)],
        mkServerPlayer ''p2'' [hiddenCard, hiddenCard]]"
proof -
  let ?s = "mkServerState [mkServerPlayer ''p1'' [mkCard ''r3'' Red (Num 3)],
                     mkServerPlayer ''p2'' [mkCard ''b7'' Blue (Num 7), mkCard ''w1'' Wild_color Wild]]
        0 1 [mkCard ''g4'' Green (Num 4)] [mkCard ''r5'' Red (Num 5)] None"
  let ?t = "mkServerState [mkServerPlayer ''p1'' [mkCard ''r3'' Red (Num 3)],
                     mkServerPlayer ''p2'' [mkCard ''y1'' Yellow (Num 1), mkCard ''y2'' Yellow Skip]]
        0 1 [mkCard ''g9'' Green (Num 9), mkCard ''g8'' Green (Num 8)]
        [mkCard ''r5'' Red (Num 5)] None"
  have sf: "same_for ''p1'' ?s ?t"
    by (simp add: same_for_def mkServerState_def mkServerPlayer_def)
  have ps: "map (\<lambda>p. if id_sv p = ''p1'' then p
                 else p\<lparr>hand_sv := replicate (length (hand_sv p)) hiddenCard\<rparr>) (players_sv ?s)
            = [mkServerPlayer ''p1'' [mkCard ''r3'' Red (Num 3)],
               mkServerPlayer ''p2'' [hiddenCard, hiddenCard]]"
    by (simp add: mkServerState_def mkServerPlayer_def)
  from snapshot_hides_other_hands [of ?s "''p1''" ?t] sf
  have "getStateForPlayer ?s ''p1'' = getStateForPlayer ?t ''p1''"
    and "players_sv (getStateForPlayer ?s ''p1'')
         = map (\<lambda>p. if id_sv p = ''p1'' then p
                 else p\<lparr>hand_sv := replicate (length (hand_sv p)) hiddenCard\<rparr>) (players_sv ?s)"
    by blast+
  then show ?thesis by (simp only: ps)
qed

section \<open>A wild card played without a colour\<close>

lemma js_rem_some: "b \<noteq> 0 \<Longrightarrow> \<exists>r. js_rem a b = Some r"
  by (simp add: js_rem_def)

lemma nextPlayer_some:
  "players_sv s \<noteq> [] \<Longrightarrow> \<exists>r. nextPlayer s 0 = Some r"
  by (simp add: nextPlayer_def js_rem_def)

lemma nth_js_SomeD: "nth_js xs i = Some x \<Longrightarrow> xs \<noteq> [] \<and> 0 \<le> i \<and> i < int (length xs) \<and> xs ! nat i = x"
  by (auto simp: nth_js_def split: if_splits)

lemma server_wild_defers_colour:
  assumes ph: "phase_sv s = Playing"
    and pl: "nth_js (players_sv s) (findIndex (\<lambda>p. id_sv p = playerId a) (players_sv s)) = Some player"
    and cur: "currentPlayerIndex_sv s = findIndex (\<lambda>p. id_sv p = playerId a) (players_sv s)"
    and ty: "type_action a = Play_card" and nc: "wildColor a = None"
    and cd: "nth_js (hand_sv player) (findIndex (\<lambda>c. Some (id_card c) = cardId a) (hand_sv player)) = Some c"
    and wc: "color c = Wild_color"
    and dp: "discardPile_sv s \<noteq> []"
  shows "handleAction env cfg s a =
           Inr (s\<lparr>players_sv := set_index (players_sv s) (currentPlayerIndex_sv s)
                     (player\<lparr>hand_sv :=
                        take (nat (findIndex (\<lambda>c. Some (id_card c) = cardId a) (hand_sv player)))
                          (hand_sv player)
                        @ drop (nat (findIndex (\<lambda>c. Some (id_card c) = cardId a) (hand_sv player)) + 1)
                            (hand_sv player)\<rparr>),
                  discardPile_sv := discardPile_sv s @ [c],
                  selectedWildColor_sv := None, phase_sv := Color_selection\<rparr>)"
proof -
  have top: "\<exists>t. getTopCard_sv s = Some t"
    using dp by (simp add: getTopCard_sv_def nth_js_def)
  then have can: "canPlayCard s c = Some True"
    using wc by (auto simp: canPlayCard_def Let_def)
  show ?thesis
    using ph pl cur ty nc cd wc can
    by (simp add: handleAction_def play_card_sv_def Let_def)
qed

lemma server_select_colour:
  assumes ph: "phase_sv s = Color_selection"
    and pl: "nth_js (players_sv s) (findIndex (\<lambda>p. id_sv p = playerId b) (players_sv s)) = Some player"
    and ty: "type_action b = Select_color"
  shows "\<exists>i. nextPlayer s 0 = Some i \<and>
           handleAction env cfg s b =
             Inr (s\<lparr>selectedWildColor_sv := wildColor b, phase_sv := Playing,
                    currentPlayerIndex_sv := i, turnStartTime_sv := now env\<rparr>)"
proof -
  have "players_sv s \<noteq> []" using pl by (auto dest: nth_js_SomeD)
  then obtain i where i: "nextPlayer s 0 = Some i" using nextPlayer_some by blast
  then have "nextPlayer (s\<lparr>selectedWildColor_sv := wildColor b, phase_sv := Playing\<rparr>) 0 = Some i"
    by (simp add: nextPlayer_def)
  then show ?thesis using i ph pl ty
    by (simp add: handleAction_def advance_sv_def Let_def)
qed

lemma client_wild_needs_colour:
  assumes pl: "find (\<lambda>p. id_player p = playerId a) (players (state e)) = Some p"
    and cur: "nth_js (players (state e)) (currentPlayerIndex (state e)) = Some p"
    and ty: "type_action a = Play_card" and nc: "wildColor a = None"
    and ci: "truthy (cardId a)"
    and cd: "find (\<lambda>c. Some (id_card c) = cardId a) (hand p) = Some c"
    and wc: "color c = Wild_color"
    and dp: "discardPile (state e) \<noteq> []"
    and ns: "stackedDrawAmount (state e) = 0"
  shows "validateAction e a = Inr (reject ''Must select a color for wild card'')"
proof -
  have idp: "id_player p = playerId a" using pl by (auto simp: find_Some_iff)
  obtain t where top: "getTopCard (state e) = Some t"
    using dp by (auto simp: getTopCard_def nth_js_def)
  have cin: "c \<in> set (hand p)" and cid: "Some (id_card c) = cardId a"
    using cd by (auto simp: find_Some_iff)
  have "find (\<lambda>m. Some (id_card m) = cardId a)
          (filter (\<lambda>c. isPlayable c t (getCurrentColor t (selectedWildColor e))) (hand p)) \<noteq> None"
    using cin cid wc by (auto simp: find_None_iff isPlayable_def)
  then have vm: "\<exists>ms. getValidMoves e (playerId a) = Inr ms
                  \<and> find (\<lambda>m. Some (id_card m) = cardId a) ms \<noteq> None"
    using pl top ns by (simp add: getValidMoves_def Let_def)
  then obtain ms where ms: "getValidMoves e (playerId a) = Inr ms"
      "find (\<lambda>m. Some (id_card m) = cardId a) ms \<noteq> None" by blast
  show ?thesis
    using pl cur ty nc ci cd wc idp ms
    by (auto simp: validateAction_def validate_play_card_def)
qed

lemma client_select_colour:
  assumes pl: "find (\<lambda>p. id_player p = playerId b) (players (state e)) = Some p"
    and ty: "type_action b = Select_color"
    and ph: "phase (state e) = Color_selection"
  shows "\<exists>e' evs. dispatch env e b = Inr (e', evs) \<and> phase (state e') = Playing"
  using assms
  by (simp add: dispatch_def validateAction_def applyAction_def handleSelectColor_def accept_def
      Let_def)

lemma findIndex_from_ids:
  "map f xs = map f ys \<Longrightarrow>
   findIndex_from (\<lambda>p. f p = x) xs k = findIndex_from (\<lambda>p. f p = x) ys k"
proof (induction xs arbitrary: ys k)
  case Nil
  then show ?case by simp
next
  case (Cons a xs)
  then obtain b ys' where "ys = b # ys'" "f a = f b" "map f xs = map f ys'" by auto
  then show ?case using Cons.IH [of ys' "k + 1"] by simp
qed

lemma findIndex_ids:
  "map f xs = map f ys \<Longrightarrow> findIndex (\<lambda>p. f p = x) xs = findIndex (\<lambda>p. f p = x) ys"
  unfolding findIndex_def by (rule findIndex_from_ids)

lemma map_set_index:
  assumes "nth_js xs i = Some p" and "f q = f p"
  shows "map f (set_index xs i q) = map f xs"
proof -
  have "0 \<le> i \<and> i < int (length xs) \<and> xs ! nat i = p"
    using assms(1) by (auto dest: nth_js_SomeD)
  then have "(map f xs)[nat i := f q] = map f xs"
    using assms(2) by (metis list_update_id nth_map nat_less_iff)
  then show ?thesis using assms by (simp add: set_index_def map_update)
qed

lemma nth_js_set_index:
  "nth_js xs j = Some q \<Longrightarrow> \<exists>q'. nth_js (set_index xs i p) j = Some q'"
  by (auto simp: nth_js_def set_index_def split: if_splits)

text \<open>
  C7, as the specification states it, fails on the rules engine: \<open>validateAction\<close>
  rejects a wild card played without a colour, so the state stays as it is in phase
  \<open>playing\<close> and the engine never reaches \<open>color_selection\<close> through \<open>play_card\<close>.
\<close>

theorem client_rejects_wild_without_colour_counterexample:
  "dispatch env0 clientWild (mkAction Play_card ''p1'' (Some ''w1'') None)
     = Inr (clientWild,
            [Action_rejected (mkAction Play_card ''p1'' (Some ''w1'') None)
               (Some ''Must select a color for wild card'')])
   \<and> phase (state clientWild) = Playing"
  by (simp add: dispatch_def validateAction_def validate_play_card_def getValidMoves_def
      getTopCard_def clientWild_def mkEngine_def mkState_def mkPlayer_def mkCard_def
      mkAction_def mkRules_def truthy_def nth_js_def isPlayable_def getCurrentColor_def
      reject_def accept_def)

text \<open>
  C7, amended. On the server, from phase \<open>playing\<close>, \<open>play_card\<close> by the current player
  with a wild card of the hand and no colour puts the card on the discard pile, keeps
  the turn and moves to \<open>color_selection\<close>; a following \<open>select_color\<close> by any player
  of the game returns to \<open>playing\<close> and records the colour. On the client engine the
  same action of the current player (no stacked penalty pending) is rejected with the
  reason \<open>Must select a color for wild card\<close> and changes nothing; \<open>select_color\<close> in
  phase \<open>color_selection\<close> returns the engine to \<open>playing\<close>.
\<close>

theorem wild_without_colour_on_each_side:
  "(phase_sv s = Playing
    \<and> nth_js (players_sv s) (findIndex (\<lambda>p. id_sv p = playerId a) (players_sv s)) = Some player
    \<and> currentPlayerIndex_sv s = findIndex (\<lambda>p. id_sv p = playerId a) (players_sv s)
    \<and> type_action a = Play_card \<and> wildColor a = None
    \<and> nth_js (hand_sv player) (findIndex (\<lambda>c. Some (id_card c) = cardId a) (hand_sv player))
        = Some c
    \<and> color c = Wild_color \<and> discardPile_sv s \<noteq> []
    \<longrightarrow> (\<exists>s'. handleAction env cfg s a = Inr s' \<and> phase_sv s' = Color_selection
              \<and> discardPile_sv s' = discardPile_sv s @ [c]
              \<and> selectedWildColor_sv s' = None
              \<and> currentPlayerIndex_sv s' = currentPlayerIndex_sv s
              \<and> (\<forall>b q. type_action b = Select_color
                         \<and> nth_js (players_sv s)
                              (findIndex (\<lambda>p. id_sv p = playerId b) (players_sv s)) = Some q
                    \<longrightarrow> (\<exists>s''. handleAction env cfg s' b = Inr s'' \<and> phase_sv s'' = Playing
                             \<and> selectedWildColor_sv s'' = wildColor b
                             \<and> discardPile_sv s'' = discardPile_sv s @ [c]))))
   \<and> (find (\<lambda>p. id_player p = playerId a) (players (state e)) = Some p
      \<and> nth_js (players (state e)) (currentPlayerIndex (state e)) = Some p
      \<and> type_action a = Play_card \<and> wildColor a = None \<and> truthy (cardId a)
      \<and> find (\<lambda>c. Some (id_card c) = cardId a) (hand p) = Some c
      \<and> color c = Wild_color \<and> discardPile (state e) \<noteq> []
      \<and> stackedDrawAmount (state e) = 0
      \<longrightarrow> dispatch env e a
            = Inr (e, [Action_rejected a (Some ''Must select a color for wild card'')]))
   \<and> (find (\<lambda>p. id_player p = playerId b) (players (state e)) = Some p
      \<and> type_action b = Select_color \<and> phase (state e) = Color_selection
      \<longrightarrow> (\<exists>e' evs. dispatch env e b = Inr (e', evs) \<and> phase (state e') = Playing))"
proof (intro conjI impI)
  assume h: "phase_sv s = Playing
    \<and> nth_js (players_sv s) (findIndex (\<lambda>p. id_sv p = playerId a) (players_sv s)) = Some player
    \<and> currentPlayerIndex_sv s = findIndex (\<lambda>p. id_sv p = playerId a) (players_sv s)
    \<and> type_action a = Play_card \<and> wildColor a = None
    \<and> nth_js (hand_sv player) (findIndex (\<lambda>c. Some (id_card c) = cardId a) (hand_sv player))
        = Some c
    \<and> color c = Wild_color \<and> discardPile_sv s \<noteq> []"
  let ?h = "take (nat (findIndex (\<lambda>c. Some (id_card c) = cardId a) (hand_sv player)))
                          (hand_sv player)
                        @ drop (nat (findIndex (\<lambda>c. Some (id_card c) = cardId a) (hand_sv player)) + 1)
                            (hand_sv player)"
  let ?ps = "set_index (players_sv s) (currentPlayerIndex_sv s) (player\<lparr>hand_sv := ?h\<rparr>)"
  let ?s' = "s\<lparr>players_sv := ?ps, discardPile_sv := discardPile_sv s @ [c],
                  selectedWildColor_sv := None, phase_sv := Color_selection\<rparr>"
  from h have ph: "phase_sv s = Playing"
    and pl: "nth_js (players_sv s) (findIndex (\<lambda>p. id_sv p = playerId a) (players_sv s)) = Some player"
    and cur: "currentPlayerIndex_sv s = findIndex (\<lambda>p. id_sv p = playerId a) (players_sv s)"
    and ty: "type_action a = Play_card" and nc: "wildColor a = None"
    and cd: "nth_js (hand_sv player) (findIndex (\<lambda>c. Some (id_card c) = cardId a) (hand_sv player))
        = Some c"
    and wc: "color c = Wild_color" and dp: "discardPile_sv s \<noteq> []"
    by blast+
  have e: "handleAction env cfg s a = Inr ?s'"
    by (rule server_wild_defers_colour [OF ph pl cur ty nc cd wc dp])
  have pl': "nth_js (players_sv s) (currentPlayerIndex_sv s) = Some player"
    using pl cur by simp
  have ids: "map id_sv ?ps = map id_sv (players_sv s)"
    using pl' by (rule map_set_index) simp
  have pss: "players_sv ?s' = ?ps" by simp
  have sel: "\<exists>s''. handleAction env cfg ?s' b = Inr s'' \<and> phase_sv s'' = Playing
                             \<and> selectedWildColor_sv s'' = wildColor b
                             \<and> discardPile_sv s'' = discardPile_sv s @ [c]"
    if b: "type_action b = Select_color
           \<and> nth_js (players_sv s) (findIndex (\<lambda>p. id_sv p = playerId b) (players_sv s)) = Some q"
    for b q
  proof -
    have fi: "findIndex (\<lambda>p. id_sv p = playerId b) ?ps
          = findIndex (\<lambda>p. id_sv p = playerId b) (players_sv s)"
      by (rule findIndex_ids) (rule ids)
    from b have nb: "nth_js (players_sv s)
        (findIndex (\<lambda>p. id_sv p = playerId b) (players_sv s)) = Some q" by simp
    from nth_js_set_index [where i = "currentPlayerIndex_sv s" and p = "player\<lparr>hand_sv := ?h\<rparr>", OF nb]
    obtain q' where
      q': "nth_js ?ps (findIndex (\<lambda>p. id_sv p = playerId b) (players_sv s)) = Some q'"
      by (rule exE)
    have pl: "nth_js (players_sv ?s') (findIndex (\<lambda>p. id_sv p = playerId b) (players_sv ?s'))
                    = Some q'"
      by (simp only: fi pss q')
    have ph: "phase_sv ?s' = Color_selection" by simp
    from b have tb: "type_action b = Select_color" by simp
    from server_select_colour [OF ph pl tb, of env cfg]
    obtain i where eq: "handleAction env cfg ?s' b =
             Inr (?s'\<lparr>selectedWildColor_sv := wildColor b, phase_sv := Playing,
                    currentPlayerIndex_sv := i, turnStartTime_sv := now env\<rparr>)"
      by blast
    show ?thesis unfolding eq by simp
  qed
  then have sel': "\<forall>b q. type_action b = Select_color
                         \<and> nth_js (players_sv s)
                              (findIndex (\<lambda>p. id_sv p = playerId b) (players_sv s)) = Some q
                    \<longrightarrow> (\<exists>s''. handleAction env cfg ?s' b = Inr s'' \<and> phase_sv s'' = Playing
                             \<and> selectedWildColor_sv s'' = wildColor b
                             \<and> discardPile_sv s'' = discardPile_sv s @ [c])"
    by blast
  have f: "phase_sv ?s' = Color_selection" "discardPile_sv ?s' = discardPile_sv s @ [c]"
    "selectedWildColor_sv ?s' = None" "currentPlayerIndex_sv ?s' = currentPlayerIndex_sv s"
    by simp_all
  show "\<exists>s'. handleAction env cfg s a = Inr s' \<and> phase_sv s' = Color_selection
              \<and> discardPile_sv s' = discardPile_sv s @ [c]
              \<and> selectedWildColor_sv s' = None
              \<and> currentPlayerIndex_sv s' = currentPlayerIndex_sv s
              \<and> (\<forall>b q. type_action b = Select_color
                         \<and> nth_js (players_sv s)
                              (findIndex (\<lambda>p. id_sv p = playerId b) (players_sv s)) = Some q
                    \<longrightarrow> (\<exists>s''. handleAction env cfg s' b = Inr s'' \<and> phase_sv s'' = Playing
                             \<and> selectedWildColor_sv s'' = wildColor b
                             \<and> discardPile_sv s'' = discardPile_sv s @ [c]))"
    by (rule exI [of _ ?s'], intro conjI) (rule e f sel')+
next
  assume h: "find (\<lambda>p. id_player p = playerId a) (players (state e)) = Some p
      \<and> nth_js (players (state e)) (currentPlayerIndex (state e)) = Some p
      \<and> type_action a = Play_card \<and> wildColor a = None \<and> truthy (cardId a)
      \<and> find (\<lambda>c. Some (id_card c) = cardId a) (hand p) = Some c
      \<and> color c = Wild_color \<and> discardPile (state e) \<noteq> []
      \<and> stackedDrawAmount (state e) = 0"
  from h have "find (\<lambda>p. id_player p = playerId a) (players (state e)) = Some p"
    and "nth_js (players (state e)) (currentPlayerIndex (state e)) = Some p"
    and "type_action a = Play_card" and "wildColor a = None" and "truthy (cardId a)"
    and "find (\<lambda>c. Some (id_card c) = cardId a) (hand p) = Some c"
    and "color c = Wild_color" and "discardPile (state e) \<noteq> []"
    and "stackedDrawAmount (state e) = 0"
    by blast+
  then have "validateAction e a = Inr (reject ''Must select a color for wild card'')"
    by (rule client_wild_needs_colour)
  then show "dispatch env e a
            = Inr (e, [Action_rejected a (Some ''Must select a color for wild card'')])"
    by (simp add: dispatch_def reject_def)
next
  assume h: "find (\<lambda>p. id_player p = playerId b) (players (state e)) = Some p
      \<and> type_action b = Select_color \<and> phase (state e) = Color_selection"
  then have "find (\<lambda>p. id_player p = playerId b) (players (state e)) = Some p"
    and "type_action b = Select_color" and "phase (state e) = Color_selection"
    by blast+
  then show "\<exists>e' evs. dispatch env e b = Inr (e', evs) \<and> phase (state e') = Playing"
    by (rule client_select_colour)
qed

theorem wild_without_colour_on_each_side_witness:
  "map_sum (\<lambda>f. ()) (\<lambda>s. (phase_sv s, discardPile_sv s, map hand_sv (players_sv s)))
     (handleAction env0 (mkRules True) serverWild (mkAction Play_card ''p1'' (Some ''w1'') None))
   = Inr (Color_selection, [mkCard ''g4'' Green (Num 4), mkCard ''w1'' Wild_color Wild],
          [[mkCard ''g9'' Green (Num 9)],
           [mkCard ''r3'' Red (Num 3), mkCard ''b7'' Blue (Num 7)]])
   \<and> dispatch env0 clientWild (mkAction Play_card ''p1'' (Some ''w1'') None)
     = Inr (clientWild,
            [Action_rejected (mkAction Play_card ''p1'' (Some ''w1'') None)
               (Some ''Must select a color for wild card'')])
   \<and> map_sum (\<lambda>f. ()) (\<lambda>r. phase (state (fst r)))
       (dispatch env0 (clientWild\<lparr>state := (state clientWild)\<lparr>phase := Color_selection\<rparr>\<rparr>)
          (mkAction Select_color ''p1'' None (Some Blue)))
     = Inr Playing"
proof -
  let ?a = "mkAction Play_card ''p1'' (Some ''w1'') None"
  let ?b = "mkAction Select_color ''p1'' None (Some Blue)"
  let ?e = "clientWild\<lparr>state := (state clientWild)\<lparr>phase := Color_selection\<rparr>\<rparr>"
  let ?p = "mkServerPlayer ''p1'' [mkCard ''w1'' Wild_color Wild, mkCard ''g9'' Green (Num 9)]"
  let ?c = "mkCard ''w1'' Wild_color Wild"
  let ?q = "mkPlayer ''p1'' [mkCard ''w1'' Wild_color Wild, mkCard ''g9'' Green (Num 9)]"
  have s: "phase_sv serverWild = Playing
    \<and> nth_js (players_sv serverWild)
         (findIndex (\<lambda>p. id_sv p = playerId ?a) (players_sv serverWild)) = Some ?p
    \<and> currentPlayerIndex_sv serverWild
        = findIndex (\<lambda>p. id_sv p = playerId ?a) (players_sv serverWild)
    \<and> type_action ?a = Play_card \<and> wildColor ?a = None
    \<and> nth_js (hand_sv ?p) (findIndex (\<lambda>c. Some (id_card c) = cardId ?a) (hand_sv ?p)) = Some ?c
    \<and> color ?c = Wild_color \<and> discardPile_sv serverWild \<noteq> []"
    by (simp add: serverWild_def mkServerState_def mkServerPlayer_def mkAction_def mkCard_def
        nth_js_def findIndex_def)
  have c: "find (\<lambda>p. id_player p = playerId ?a) (players (state clientWild)) = Some ?q
      \<and> nth_js (players (state clientWild)) (currentPlayerIndex (state clientWild)) = Some ?q
      \<and> type_action ?a = Play_card \<and> wildColor ?a = None \<and> truthy (cardId ?a)
      \<and> find (\<lambda>c. Some (id_card c) = cardId ?a) (hand ?q) = Some ?c
      \<and> color ?c = Wild_color \<and> discardPile (state clientWild) \<noteq> []
      \<and> stackedDrawAmount (state clientWild) = 0"
    by (simp add: clientWild_def mkEngine_def mkState_def mkPlayer_def mkAction_def mkCard_def
        nth_js_def truthy_def)
  have d: "find (\<lambda>p. id_player p = playerId ?b) (players (state ?e)) = Some ?q
      \<and> type_action ?b = Select_color \<and> phase (state ?e) = Color_selection"
    by (simp add: clientWild_def mkEngine_def mkState_def mkPlayer_def mkAction_def)
  from wild_without_colour_on_each_side [of serverWild ?a ?p ?c env0 "mkRules True"
      clientWild ?q ?b] s c
  obtain s' where
    1: "handleAction env0 (mkRules True) serverWild ?a = Inr s'"
      "phase_sv s' = Color_selection" "discardPile_sv s' = discardPile_sv serverWild @ [?c]"
    and 2: "dispatch env0 clientWild ?a
            = Inr (clientWild, [Action_rejected ?a (Some ''Must select a color for wild card'')])"
    by blast
  from wild_without_colour_on_each_side [of serverWild ?a ?p ?c env0 "mkRules True"
      ?e ?q ?b] d
  obtain e' evs where 3: "dispatch env0 ?e ?b = Inr (e', evs)" "phase (state e') = Playing"
    by blast
  have 4: "map hand_sv (players_sv s')
           = [[mkCard ''g9'' Green (Num 9)],
              [mkCard ''r3'' Red (Num 3), mkCard ''b7'' Blue (Num 7)]]"
    using 1(1)
    by (auto simp: handleAction_def play_card_sv_def canPlayCard_def getTopCard_sv_def
        serverWild_def mkServerState_def mkServerPlayer_def mkAction_def mkCard_def
        nth_js_def findIndex_def set_index_def Let_def)
  show ?thesis using 1 2 3 4 by (simp add: serverWild_def mkServerState_def)
qed

section \<open>The opponent's move against the engine's validation\<close>

text \<open>
  C6 does not hold of the code. A player puts a wild card on a green 4 and chooses
  blue. The opponent, next to play with a red 3 and a blue 7, takes red for the
  effective colour, so at every tier and whatever its random choices it proposes the
  red 3, which \<open>validateAction\<close> rejects: the blue 7 was the legal move.
\<close>

theorem opponent_decision_rejected:
  "dispatch env0 (mkEngine wildTop True None)
     (mkAction Play_card ''p1'' (Some ''w1'') (Some Blue))
     = Inr (mkEngine afterWild True (Some Blue), [State_changed afterWild])
   \<and> makeDecision r \<lparr>id_ai = ''ai'', difficulty = d\<rparr> afterWild
     = Inr (Some (mkAction Play_card ''ai'' (Some ''r3'') None))
   \<and> validateAction (mkEngine afterWild True (Some Blue))
       (mkAction Play_card ''ai'' (Some ''r3'') None)
     = Inr (reject ''Card cannot be played'')"
proof (intro conjI)
  show "dispatch env0 (mkEngine wildTop True None)
     (mkAction Play_card ''p1'' (Some ''w1'') (Some Blue))
     = Inr (mkEngine afterWild True (Some Blue), [State_changed afterWild])"
    by (simp add: dispatch_def validateAction_def validate_play_card_def applyAction_def
      handlePlayCard_def applyCardEffects_def getValidMoves_def getTopCard_def
      mkEngine_def wildTop_def afterWild_def mkState_def mkPlayer_def mkCard_def mkAction_def
      mkRules_def env0_def accept_def reject_def truthy_def nth_js_def findIndex_def
      set_index_def slice_def slice_from_def slice_bound_def isPlayable_def
      getCurrentColor_def isDrawCard_def isSkipCard_def isReverseCard_def advanceTurn_def
      Let_def)
  show "makeDecision r \<lparr>id_ai = ''ai'', difficulty = d\<rparr> afterWild
     = Inr (Some (mkAction Play_card ''ai'' (Some ''r3'') None))"
    by (cases d)
     (simp_all add: makeDecision_def decidePlay_def validMoves_ai_def pickBestCard_def
      basicStrategy_def optimalStrategy_def playCardDecision_def
      afterWild_def mkState_def mkPlayer_def mkCard_def mkAction_def
      nth_js_def isPlayable_def getCurrentColor_def)
  show "validateAction (mkEngine afterWild True (Some Blue))
       (mkAction Play_card ''ai'' (Some ''r3'') None)
     = Inr (reject ''Card cannot be played'')"
    by (simp add: validateAction_def validate_play_card_def getValidMoves_def getTopCard_def
      mkEngine_def afterWild_def mkState_def mkPlayer_def mkCard_def mkAction_def
      mkRules_def truthy_def nth_js_def isPlayable_def getCurrentColor_def)
qed

theorem opponent_decision_rejected_witness:
  "makeDecision aiEnv0 \<lparr>id_ai = ''ai'', difficulty = Easy\<rparr> afterWild
     = Inr (Some (mkAction Play_card ''ai'' (Some ''r3'') None))
   \<and> makeDecision aiEnv0 \<lparr>id_ai = ''ai'', difficulty = Medium\<rparr> afterWild
     = Inr (Some (mkAction Play_card ''ai'' (Some ''r3'') None))
   \<and> makeDecision aiEnv0 \<lparr>id_ai = ''ai'', difficulty = Hard\<rparr> afterWild
     = Inr (Some (mkAction Play_card ''ai'' (Some ''r3'') None))
   \<and> map_sum (\<lambda>f. ()) valid
       (validateAction (mkEngine afterWild True (Some Blue))
          (mkAction Play_card ''ai'' (Some ''r3'') None))
     = Inr False"
  using opponent_decision_rejected [of aiEnv0 Easy] opponent_decision_rejected [of aiEnv0 Medium]
    opponent_decision_rejected [of aiEnv0 Hard]
  by (simp add: reject_def)

end
